theory Spec2Isabelle
  imports Main "HOL-Library.Char_ord" "HOL-Library.List_Lexorder" "HOL-Library.Multiset"
begin

section \<open>JavaScript values used by the search managers\<close>

text \<open>
  Optional fields of the TypeScript interfaces are \<open>option\<close> values (\<open>None\<close> is
  \<open>undefined\<close>). JavaScript numbers are restricted to integers (\<open>int\<close>): the model is
  exact for the safe integers, up to \<open>2^53 - 1\<close> in absolute value, where a number holds
  its integer exactly and is printed in plain decimal digits; beyond them a number is
  rounded and printed otherwise, which the model does not follow. Strings are
  \<open>string\<close> and the case and white-space functions act on the ASCII range.
  \<open>a || b\<close> yields \<open>a\<close> when \<open>a\<close> is truthy and \<open>b\<close> otherwise: the empty string,
  zero and \<open>undefined\<close> are falsy. \<open>a ?? b\<close> yields \<open>b\<close> only when \<open>a\<close> is
  \<open>undefined\<close>.
\<close>

definition truthy_str :: "string option \<Rightarrow> bool" where
  "truthy_str s = (case s of None \<Rightarrow> False | Some t \<Rightarrow> t \<noteq> [])"

definition truthy_num :: "int option \<Rightarrow> bool" where
  "truthy_num n = (case n of None \<Rightarrow> False | Some k \<Rightarrow> k \<noteq> 0)"

definition or_str :: "string option \<Rightarrow> string option \<Rightarrow> string option" where
  "or_str a b = (if truthy_str a then a else b)"

definition or_num :: "int option \<Rightarrow> int option \<Rightarrow> int option" where
  "or_num a b = (if truthy_num a then a else b)"

definition or_zero :: "int option \<Rightarrow> int" where
  "or_zero a = (if truthy_num a then the a else 0)"

definition or_list :: "'a list option \<Rightarrow> 'a list" where
  "or_list xs = (case xs of None \<Rightarrow> [] | Some ys \<Rightarrow> ys)"

definition nullish :: "'a option \<Rightarrow> 'a option \<Rightarrow> 'a option" where
  "nullish a b = (case a of None \<Rightarrow> b | Some x \<Rightarrow> Some x)"

text \<open>\<open>Array.from(new Set(xs))\<close>: the distinct elements in order of first occurrence.\<close>

definition array_from_set :: "'a list \<Rightarrow> 'a list" where
  "array_from_set xs = rev (remdups (rev xs))"

definition lower_char :: "char \<Rightarrow> char" where
  "lower_char c =
     (if (65::nat) \<le> of_char c \<and> of_char c \<le> (90::nat)
      then char_of (of_char c + (32::nat)) else c)"

definition toLowerCase :: "string \<Rightarrow> string" where
  "toLowerCase s = map lower_char s"

definition is_space :: "char \<Rightarrow> bool" where
  "is_space c = (of_char c \<in> {9::nat, 10, 11, 12, 13, 32})"

text \<open>\<open>s.replace(/\s+/g, ' ')\<close>: every maximal run of white space becomes one blank.\<close>

fun collapse_ws :: "string \<Rightarrow> string" where
  "collapse_ws [] = []"
| "collapse_ws [c] = [if is_space c then CHR '' '' else c]"
| "collapse_ws (c # d # cs) =
     (if is_space c
      then (if is_space d then collapse_ws (d # cs) else CHR '' '' # collapse_ws (d # cs))
      else c # collapse_ws (d # cs))"

definition trim :: "string \<Rightarrow> string" where
  "trim s = rev (dropWhile is_space (rev (dropWhile is_space s)))"

text \<open>
  A JavaScript \<open>Map\<close> keeps its keys in insertion order; \<open>set\<close> on a key that is
  present replaces the value in place, on a new key it appends.
\<close>

fun map_set :: "'k \<Rightarrow> 'v \<Rightarrow> ('k \<times> 'v) list \<Rightarrow> ('k \<times> 'v) list" where
  "map_set k v [] = [(k, v)]"
| "map_set k v ((k', v') # m) = (if k = k' then (k, v) # m else (k', v') # map_set k v m)"

definition map_get :: "('k \<times> 'v) list \<Rightarrow> 'k \<Rightarrow> 'v option" where
  "map_get m k = map_of m k"

definition map_values :: "('k \<times> 'v) list \<Rightarrow> 'v list" where
  "map_values m = map snd m"

text \<open>
  \<open>Array.prototype.sort(cmp)\<close> is stable: an element goes before the first element of
  the sorted rest that it does not compare greater than.
\<close>

fun insert_cmp :: "('a \<Rightarrow> 'a \<Rightarrow> int) \<Rightarrow> 'a \<Rightarrow> 'a list \<Rightarrow> 'a list" where
  "insert_cmp c x [] = [x]"
| "insert_cmp c x (y # ys) = (if c x y \<le> 0 then x # y # ys else y # insert_cmp c x ys)"

definition array_sort :: "('a \<Rightarrow> 'a \<Rightarrow> int) \<Rightarrow> 'a list \<Rightarrow> 'a list" where
  "array_sort c xs = foldr (insert_cmp c) xs []"

section \<open>Podcast search: data model\<close>

datatype ProviderName = apple | podcast_index | taddy | local

fun provider_string :: "ProviderName \<Rightarrow> string" where
  "provider_string apple = ''apple''"
| "provider_string podcast_index = ''podcast_index''"
| "provider_string taddy = ''taddy''"
| "provider_string local = ''local''"

text \<open>\<open>ProviderPodcastResult\<close>; the field \<open>id\<close> is written \<open>pid\<close>.\<close>

record ProviderPodcastResult =
  pid :: "string option"
  title :: string
  authorName :: "string option"
  description :: "string option"
  imageUrl :: "string option"
  feedUrl :: "string option"
  itunesId :: "string option"
  categories :: "string list option"
  episodeCount :: "int option"
  language :: "string option"
  websiteUrl :: "string option"
  source :: ProviderName
  sourceProviders :: "ProviderName list option"
  lastUpdated :: "string option"
  explicit :: "bool option"
  country :: "string option"
  popularity :: "int option"

subsection \<open>\<open>PodcastSearchManager.mergePodcast\<close>\<close>

definition mergePodcast :: "ProviderPodcastResult \<Rightarrow> ProviderPodcastResult \<Rightarrow> ProviderPodcastResult" where
  "mergePodcast target incoming = target
     \<lparr> title := (if title target \<noteq> [] then title target else title incoming),
       authorName := or_str (authorName target) (authorName incoming),
       description :=
         (if truthy_str (description incoming) \<and>
             (\<not> truthy_str (description target) \<or>
              length (the (description incoming)) > length (the (description target)))
          then description incoming else description target),
       imageUrl := or_str (imageUrl target) (imageUrl incoming),
       feedUrl := or_str (feedUrl target) (feedUrl incoming),
       itunesId := or_str (itunesId target) (itunesId incoming),
       categories :=
         Some (array_from_set (or_list (categories target) @ or_list (categories incoming))),
       episodeCount := or_num (episodeCount target) (episodeCount incoming),
       language := or_str (language target) (language incoming),
       websiteUrl := or_str (websiteUrl target) (websiteUrl incoming),
       source := source target,
       sourceProviders :=
         Some (array_from_set (or_list (sourceProviders target) @
                 or_list (sourceProviders incoming) @ [source incoming])),
       lastUpdated := or_str (lastUpdated target) (lastUpdated incoming),
       popularity := or_num (popularity target) (popularity incoming),
       explicit := nullish (explicit target) (explicit incoming) \<rparr>"

subsection \<open>\<open>PodcastSearchManager.deduplicateResults\<close>\<close>

definition normalizeTitleAuthor :: "string \<Rightarrow> string option \<Rightarrow> string option" where
  "normalizeTitleAuthor t a =
     (if t = [] \<and> \<not> truthy_str a then None
      else Some (trim (collapse_ws (toLowerCase
                  (t @ ''-'' @ (if truthy_str a then the a else []))))))"

text \<open>\<open>key && byFeed.get(key)\<close>: a falsy key finds nothing.\<close>

definition lookup_key ::
  "(string option \<times> 'v) list \<Rightarrow> string option \<Rightarrow> 'v option" where
  "lookup_key m k = (if truthy_str k then map_get m k else None)"

definition feedKey :: "ProviderPodcastResult \<Rightarrow> string option" where
  "feedKey item = map_option toLowerCase (feedUrl item)"

definition itunesKey :: "ProviderPodcastResult \<Rightarrow> string option" where
  "itunesKey item = itunesId item"

definition fallbackKey :: "ProviderPodcastResult \<Rightarrow> string option" where
  "fallbackKey item = normalizeTitleAuthor (title item) (authorName item)"

text \<open>
  One iteration of the loop over \<open>results\<close>. The keys of \<open>byFeed\<close> are
  \<open>string option\<close>, since JavaScript would store under \<open>undefined\<close> too.
\<close>

definition dedupe_step ::
  "(string option \<times> ProviderPodcastResult) list \<Rightarrow> ProviderPodcastResult
     \<Rightarrow> (string option \<times> ProviderPodcastResult) list" where
  "dedupe_step byFeed item =
     (let fk = feedKey item; ik = itunesKey item; tk = fallbackKey item;
          existing =
            (case lookup_key byFeed fk of Some e \<Rightarrow> Some e
             | None \<Rightarrow>
                (case lookup_key byFeed ik of Some e \<Rightarrow> Some e
                 | None \<Rightarrow> lookup_key byFeed tk))
      in case existing of
           Some e \<Rightarrow> map_set (or_str fk (or_str ik tk)) (mergePodcast e item) byFeed
         | None \<Rightarrow>
             map_set
               (if truthy_str (or_str fk (or_str ik tk)) then or_str fk (or_str ik tk)
                else Some (title item @ ''-'' @ provider_string (source item)))
               (item \<lparr> sourceProviders :=
                   Some (array_from_set (or_list (sourceProviders item) @ [source item])) \<rparr>)
               byFeed)"

definition deduplicateResults :: "ProviderPodcastResult list \<Rightarrow> ProviderPodcastResult list" where
  "deduplicateResults results = map_values (foldl dedupe_step [] results)"

subsection \<open>\<open>PodcastSearchManager.sortResultsByPriority\<close>\<close>

record ProviderConfig =
  enabled :: bool
  priority :: int
  timeoutMs :: int
  cacheTtlMs :: int
  rateLimit :: "int option"
  rateLimitPeriodSeconds :: "int option"
  apiKey :: "string option"
  apiSecret :: "string option"
  baseUrl :: "string option"

text \<open>
  \<open>buildPriorityMap\<close>: every configured provider name is mapped to its priority
  (\<open>configs\<close> is the object under \<open>podcastProviders.providers\<close>).
\<close>

definition buildPriorityMap ::
  "(ProviderName \<Rightarrow> ProviderConfig option) \<Rightarrow> ProviderName \<Rightarrow> int option" where
  "buildPriorityMap configs n = map_option priority (configs n)"

text \<open>\<open>priorityMap[x.source] || 99\<close>: a missing or zero priority counts as 99.\<close>

definition priority_or_99 :: "('n \<Rightarrow> int option) \<Rightarrow> 'n \<Rightarrow> int" where
  "priority_or_99 pm s = (if truthy_num (pm s) then the (pm s) else 99)"

text \<open>
  The comparator passed to \<open>results.sort\<close>. \<open>String.prototype.localeCompare\<close> belongs
  to the runtime and is the parameter \<open>lc\<close>.
\<close>

definition podcast_compare ::
  "(ProviderName \<Rightarrow> int option) \<Rightarrow> (string \<Rightarrow> string \<Rightarrow> int)
     \<Rightarrow> ProviderPodcastResult \<Rightarrow> ProviderPodcastResult \<Rightarrow> int" where
  "podcast_compare pm lc a b =
     (let priorityDiff = priority_or_99 pm (source a) - priority_or_99 pm (source b) in
      if priorityDiff \<noteq> 0 then priorityDiff
      else let popularityDiff = or_zero (popularity b) - or_zero (popularity a) in
           if popularityDiff \<noteq> 0 then popularityDiff
           else lc (title a) (title b))"

definition sortResultsByPriority ::
  "(ProviderName \<Rightarrow> ProviderConfig option) \<Rightarrow> (string \<Rightarrow> string \<Rightarrow> int)
     \<Rightarrow> ProviderPodcastResult list \<Rightarrow> ProviderPodcastResult list" where
  "sortResultsByPriority configs lc results =
     array_sort (podcast_compare (buildPriorityMap configs) lc) results"

subsection \<open>Cache key and limit of the podcast search\<close>

text \<open>\<open>Array.prototype.join\<close>.\<close>

fun join :: "string \<Rightarrow> string list \<Rightarrow> string" where
  "join sep [] = []"
| "join sep [x] = x"
| "join sep (x # y # ys) = x @ sep @ join sep (y # ys)"

text \<open>
  \<open>Number.isSafeInteger\<close>: the integers a JavaScript number holds exactly.
\<close>

definition safe_integer :: "int \<Rightarrow> bool" where
  "safe_integer n = (- 9007199254740991 \<le> n \<and> n \<le> 9007199254740991)"

text \<open>
  A safe integer in a template literal or in \<open>join\<close>: its decimal digits, with a minus
  sign if negative. (From \<open>1e21\<close> on JavaScript prints an exponent, and above
  \<open>2^53\<close> not every digit; the statements about keys are for safe integers.)
\<close>

definition digit_char :: "nat \<Rightarrow> char" where
  "digit_char d = char_of (48 + d)"

function show_nat :: "nat \<Rightarrow> string" where
  "show_nat n = (if n < 10 then [digit_char n] else show_nat (n div 10) @ [digit_char (n mod 10)])"
  by pat_completeness auto
termination
  by (relation "measure (\<lambda>n. n)") auto

declare show_nat.simps [simp del]

definition show_int :: "int \<Rightarrow> string" where
  "show_int i = (if i < 0 then CHR ''-'' # show_nat (nat (- i)) else show_nat (nat i))"

text \<open>
  \<open>providers.sort()\<close> without a comparator orders strings by their code units, which
  is the lexicographic order of \<open>string\<close>.
\<close>

definition buildCacheKey ::
  "string \<Rightarrow> string option \<Rightarrow> int \<Rightarrow> string list option \<Rightarrow> string" where
  "buildCacheKey query lang lim providers =
     (let providersKey =
            (case providers of None \<Rightarrow> ''all''
             | Some ps \<Rightarrow> if ps \<noteq> [] then join '','' (sort ps) else ''all'')
      in ''podcasts:multi:'' @ query @ '':'' @
         (if truthy_str lang then the lang else ''any'') @ '':'' @
         show_int lim @ '':'' @ providersKey)"

record SearchSettings =
  defaultLimit :: "int option"
  maxLimit :: "int option"
  searchCacheTtlMs :: "int option"

definition getBoundedLimit :: "SearchSettings \<Rightarrow> int option \<Rightarrow> int" where
  "getBoundedLimit settings lim =
     (let dflt = (if truthy_num (defaultLimit settings) then the (defaultLimit settings) else 20);
          mx = (if truthy_num (maxLimit settings) then the (maxLimit settings) else 50);
          requested = (if truthy_num lim then the lim else dflt)
      in min (max requested 1) mx)"

subsection \<open>\<open>PodcastSearchManager.search\<close>\<close>

record SearchQueryDto =
  dto_page :: "int option"
  dto_limit :: "int option"
  dto_query :: "string option"
  dto_country :: "string option"
  dto_language :: "string option"
  dto_tag :: "string option"
  dto_providers :: "string list option"

text \<open>One entry of \<open>Promise.allSettled\<close>.\<close>

datatype 'a settled = Fulfilled 'a | Rejected

text \<open>
  \<open>settled.forEach\<close>: the items of a fulfilled provider, each given the provider's name
  as \<open>sourceProviders\<close> when it has none.
\<close>

definition stamp ::
  "ProviderName \<times> ProviderPodcastResult list settled \<Rightarrow> ProviderPodcastResult list" where
  "stamp p =
     (case snd p of
        Rejected \<Rightarrow> []
      | Fulfilled items \<Rightarrow>
          map (\<lambda>item. item \<lparr> sourceProviders :=
                 Some (case sourceProviders item of None \<Rightarrow> [fst p] | Some sp \<Rightarrow> sp) \<rparr>) items)"

text \<open>
  The search, with the result cache as a map and the enabled providers (in the
  registry's order) given with the settled outcome of their \<open>search\<close> calls. It returns
  the list and the cache after the call.
\<close>

definition podcast_search ::
  "SearchSettings \<Rightarrow> (ProviderName \<Rightarrow> ProviderConfig option) \<Rightarrow> (string \<Rightarrow> string \<Rightarrow> int)
     \<Rightarrow> (string \<Rightarrow> ProviderPodcastResult list option)
     \<Rightarrow> (ProviderName \<times> ProviderPodcastResult list settled) list
     \<Rightarrow> SearchQueryDto
     \<Rightarrow> ProviderPodcastResult list \<times> (string \<Rightarrow> ProviderPodcastResult list option)" where
  "podcast_search settings configs lc cache providers dto =
     (let query = map_option trim (dto_query dto);
          lang = dto_language dto;
          lim = getBoundedLimit settings (dto_limit dto)
      in if \<not> truthy_str query then ([], cache)
         else let cacheKey = buildCacheKey (the query) lang lim (dto_providers dto)
              in case cache cacheKey of
                   Some cached \<Rightarrow> (cached, cache)
                 | None \<Rightarrow>
                     if providers = [] then ([], cache)
                     else let combined = concat (map stamp providers);
                              deduped = deduplicateResults combined;
                              sorted = sortResultsByPriority configs lc deduped
                          in (sorted, cache(cacheKey \<mapsto> sorted)))"

section \<open>Radio search\<close>

datatype RadioProviderName = radio_browser | radionet | shoutcast

text \<open>
  \<open>ProviderRadioResult\<close>; \<open>id\<close> is \<open>rid\<close>, and the fields that share a name with a
  podcast field carry the prefix \<open>r_\<close>.
\<close>

record ProviderRadioResult =
  rid :: "string option"
  name :: string
  streamUrl :: string
  r_country :: "string option"
  countryCode :: "string option"
  state :: "string option"
  city :: "string option"
  r_language :: "string option"
  tags :: "string list option"
  bitrate :: "int option"
  codec :: "string option"
  homepage :: "string option"
  favicon :: "string option"
  votes :: "int option"
  clickCount :: "int option"
  r_source :: RadioProviderName
  r_sourceProviders :: "RadioProviderName list option"
  r_lastUpdated :: "string option"

definition mergeStation :: "ProviderRadioResult \<Rightarrow> ProviderRadioResult \<Rightarrow> ProviderRadioResult" where
  "mergeStation target incoming = target
     \<lparr> name := (if name target \<noteq> [] then name target else name incoming),
       r_country := or_str (r_country target) (r_country incoming),
       countryCode := or_str (countryCode target) (countryCode incoming),
       state := or_str (state target) (state incoming),
       city := or_str (city target) (city incoming),
       r_language := or_str (r_language target) (r_language incoming),
       tags := Some (array_from_set (or_list (tags target) @ or_list (tags incoming))),
       bitrate := or_num (bitrate target) (bitrate incoming),
       codec := or_str (codec target) (codec incoming),
       homepage := or_str (homepage target) (homepage incoming),
       favicon := or_str (favicon target) (favicon incoming),
       votes := Some (or_zero (votes target) + or_zero (votes incoming)),
       clickCount := Some (or_zero (clickCount target) + or_zero (clickCount incoming)),
       r_sourceProviders :=
         Some (array_from_set (or_list (r_sourceProviders target) @
                 or_list (r_sourceProviders incoming) @ [r_source incoming])),
       r_lastUpdated := or_str (r_lastUpdated target) (r_lastUpdated incoming) \<rparr>"

text \<open>
  \<open>normalizeStreamUrl\<close>. The \<open>URL\<close> constructor belongs to the runtime: \<open>parse_url\<close>
  gives \<open>host\<close> and \<open>pathname\<close>, or \<open>None\<close> where the constructor throws.
\<close>

definition normalizeStreamUrl :: "(string \<Rightarrow> (string \<times> string) option) \<Rightarrow> string \<Rightarrow> string" where
  "normalizeStreamUrl parse_url url =
     (case parse_url url of
        Some (host, pathname) \<Rightarrow>
          rev (dropWhile (\<lambda>c. c = CHR ''/'') (rev (toLowerCase (host @ pathname))))
      | None \<Rightarrow> toLowerCase url)"

definition radio_dedupe_step ::
  "(string \<Rightarrow> (string \<times> string) option) \<Rightarrow> (string \<times> ProviderRadioResult) list
     \<Rightarrow> ProviderRadioResult \<Rightarrow> (string \<times> ProviderRadioResult) list" where
  "radio_dedupe_step parse_url byStream item =
     (if streamUrl item = [] then byStream
      else let streamKey = normalizeStreamUrl parse_url (streamUrl item) in
           case map_get byStream streamKey of
             Some existing \<Rightarrow> map_set streamKey (mergeStation existing item) byStream
           | None \<Rightarrow>
               map_set streamKey
                 (item \<lparr> r_sourceProviders :=
                     Some (array_from_set (or_list (r_sourceProviders item) @ [r_source item])) \<rparr>)
                 byStream)"

definition radio_deduplicateResults ::
  "(string \<Rightarrow> (string \<times> string) option) \<Rightarrow> ProviderRadioResult list \<Rightarrow> ProviderRadioResult list" where
  "radio_deduplicateResults parse_url results =
     map_values (foldl (radio_dedupe_step parse_url) [] results)"

text \<open>
  \<open>RadioProviderRegistry.getStatuses\<close> lists the three registered providers with
  \<open>cfg?.priority ?? 99\<close>; \<open>buildPriorityMap\<close> maps each name to that priority.
\<close>

definition radio_buildPriorityMap ::
  "(RadioProviderName \<Rightarrow> int option) \<Rightarrow> RadioProviderName \<Rightarrow> int option" where
  "radio_buildPriorityMap cfg_priority n =
     Some (case cfg_priority n of None \<Rightarrow> 99 | Some p \<Rightarrow> p)"

definition radio_compare ::
  "(RadioProviderName \<Rightarrow> int option) \<Rightarrow> (string \<Rightarrow> string \<Rightarrow> int)
     \<Rightarrow> ProviderRadioResult \<Rightarrow> ProviderRadioResult \<Rightarrow> int" where
  "radio_compare pm lc a b =
     (let priorityDiff = priority_or_99 pm (r_source a) - priority_or_99 pm (r_source b) in
      if priorityDiff \<noteq> 0 then priorityDiff
      else let aPopularity = or_zero (votes a) + or_zero (clickCount a);
               bPopularity = or_zero (votes b) + or_zero (clickCount b) in
           if bPopularity \<noteq> aPopularity then bPopularity - aPopularity
           else lc (name a) (name b))"

definition radio_sortResultsByPriority ::
  "(RadioProviderName \<Rightarrow> int option) \<Rightarrow> (string \<Rightarrow> string \<Rightarrow> int)
     \<Rightarrow> ProviderRadioResult list \<Rightarrow> ProviderRadioResult list" where
  "radio_sortResultsByPriority cfg_priority lc results =
     array_sort (radio_compare (radio_buildPriorityMap cfg_priority) lc) results"

definition str_or :: "string option \<Rightarrow> string \<Rightarrow> string" where
  "str_or s d = (if truthy_str s then the s else d)"

definition radio_buildCacheKey ::
  "string option \<Rightarrow> string option \<Rightarrow> string option \<Rightarrow> string option \<Rightarrow> int \<Rightarrow> int
     \<Rightarrow> string list option \<Rightarrow> string" where
  "radio_buildCacheKey query cntry lang tg lim offset providers =
     join '':''
       [''radio-search'', str_or query ''all'', str_or cntry ''any'', str_or lang ''any'',
        str_or tg ''any'', show_int lim, show_int offset,
        str_or (map_option (join '','') providers) ''all'']"

definition radio_getBoundedLimit :: "int option \<Rightarrow> int" where
  "radio_getBoundedLimit lim = min (max (if truthy_num lim then the lim else 20) 1) 100"

definition radio_stamp ::
  "RadioProviderName \<times> ProviderRadioResult list settled \<Rightarrow> ProviderRadioResult list" where
  "radio_stamp p =
     (case snd p of
        Rejected \<Rightarrow> []
      | Fulfilled items \<Rightarrow>
          map (\<lambda>item. item \<lparr> r_sourceProviders :=
                 Some (case r_sourceProviders item of None \<Rightarrow> [fst p] | Some sp \<Rightarrow> sp) \<rparr>) items)"

definition radio_search ::
  "(string \<Rightarrow> (string \<times> string) option) \<Rightarrow> (RadioProviderName \<Rightarrow> int option)
     \<Rightarrow> (string \<Rightarrow> string \<Rightarrow> int)
     \<Rightarrow> (string \<Rightarrow> ProviderRadioResult list option)
     \<Rightarrow> (RadioProviderName \<times> ProviderRadioResult list settled) list
     \<Rightarrow> SearchQueryDto
     \<Rightarrow> ProviderRadioResult list \<times> (string \<Rightarrow> ProviderRadioResult list option)" where
  "radio_search parse_url cfg_priority lc cache providers dto =
     (let query = map_option trim (dto_query dto);
          cntry = map_option trim (dto_country dto);
          lang = map_option trim (dto_language dto);
          tg = map_option trim (dto_tag dto);
          lim = radio_getBoundedLimit (dto_limit dto);
          offset = (if truthy_num (dto_page dto) then (the (dto_page dto) - 1) * lim else 0);
          cacheKey = radio_buildCacheKey query cntry lang tg lim offset (dto_providers dto)
      in case cache cacheKey of
           Some cached \<Rightarrow> (cached, cache)
         | None \<Rightarrow>
             if providers = [] then ([], cache)
             else let combined = concat (map radio_stamp providers);
                      deduped = radio_deduplicateResults parse_url combined;
                      sorted = radio_sortResultsByPriority cfg_priority lc deduped;
                      final = take (nat lim) sorted
                  in (final, cache(cacheKey \<mapsto> final)))"

section \<open>The specification's wording, for comparison with the code\<close>

text \<open>
  The merge rule for \<open>explicit\<close> in the words of the specification: prefer the value
  that is known; two known values are combined by logical or.
\<close>

definition spec_merge_explicit :: "bool option \<Rightarrow> bool option \<Rightarrow> bool option" where
  "spec_merge_explicit a b =
     (case a of None \<Rightarrow> b
      | Some x \<Rightarrow> (case b of None \<Rightarrow> Some x | Some y \<Rightarrow> Some (x \<or> y)))"




section \<open>Concrete inputs\<close>

definition blank_podcast :: ProviderPodcastResult where
  "blank_podcast = \<lparr> pid = None, title = [], authorName = None, description = None,
     imageUrl = None, feedUrl = None, itunesId = None, categories = None, episodeCount = None,
     language = None, websiteUrl = None, source = apple, sourceProviders = None,
     lastUpdated = None, explicit = None, country = None, popularity = None \<rparr>"

definition blank_station :: ProviderRadioResult where
  "blank_station = \<lparr> rid = None, name = [], streamUrl = [], r_country = None,
     countryCode = None, state = None, city = None, r_language = None, tags = None,
     bitrate = None, codec = None, homepage = None, favicon = None, votes = None,
     clickCount = None, r_source = radio_browser, r_sourceProviders = None,
     r_lastUpdated = None \<rparr>"

text \<open>A comparison of strings by code units, standing for \<open>localeCompare\<close> at concrete inputs.\<close>

definition byte_compare :: "string \<Rightarrow> string \<Rightarrow> int" where
  "byte_compare a b = (if a < b then - 1 else if a = b then 0 else 1)"

text \<open>The provider table of \<open>podcast.config.ts\<close> with no environment variable set.\<close>

definition provider_config :: "bool \<Rightarrow> int \<Rightarrow> int \<Rightarrow> ProviderConfig" where
  "provider_config en pr tmo = \<lparr> enabled = en, priority = pr, timeoutMs = tmo,
     cacheTtlMs = 3600000, rateLimit = None, rateLimitPeriodSeconds = None, apiKey = None,
     apiSecret = None, baseUrl = None \<rparr>"

fun default_configs :: "ProviderName \<Rightarrow> ProviderConfig option" where
  "default_configs apple =
     Some ((provider_config True 1 5000) \<lparr> baseUrl := Some ''https://itunes.apple.com/search'' \<rparr>)"
| "default_configs podcast_index =
     Some ((provider_config True 2 5000)
            \<lparr> baseUrl := Some ''https://api.podcastindex.org/api/1.0'' \<rparr>)"
| "default_configs taddy =
     Some ((provider_config False 3 8000)
            \<lparr> baseUrl := Some ''https://api.taddy.org'', rateLimit := Some 500,
              rateLimitPeriodSeconds := Some 2592000 \<rparr>)"
| "default_configs local = None"

text \<open>The radio priorities of \<open>RadioProviderRegistry.getDefaultConfig\<close>.\<close>

fun default_radio_priority :: "RadioProviderName \<Rightarrow> int option" where
  "default_radio_priority radio_browser = Some 1"
| "default_radio_priority radionet = Some 2"
| "default_radio_priority shoutcast = Some 3"

text \<open>
  A stand-in for the \<open>URL\<close> constructor on plain \<open>http://host/path\<close> strings; every
  other string is taken as one the constructor rejects.
\<close>

definition simple_parse_url :: "string \<Rightarrow> (string \<times> string) option" where
  "simple_parse_url url =
     (if take 7 url = ''http://''
      then let rest = drop 7 url;
               host = takeWhile (\<lambda>c. c \<noteq> CHR ''/'') rest;
               path = dropWhile (\<lambda>c. c \<noteq> CHR ''/'') rest
           in Some (host, if path = [] then ''/'' else path)
      else None)"

text \<open>The two stations of the specification's first scenario.\<close>

definition station_a :: ProviderRadioResult where
  "station_a = blank_station \<lparr> rid := Some ''a1'', name := ''BBC World'',
     streamUrl := ''http://x/stream'', votes := Some 10, r_source := radio_browser \<rparr>"

definition station_b :: ProviderRadioResult where
  "station_b = blank_station \<lparr> rid := Some ''b7'', name := ''BBC WORLD SERVICE'',
     streamUrl := ''http://x/stream/'', votes := Some 5, r_source := radionet \<rparr>"

definition podcast_pop3 :: ProviderPodcastResult where
  "podcast_pop3 = blank_podcast \<lparr> title := ''Daily News'', popularity := Some 3,
     explicit := Some False \<rparr>"

definition podcast_pop4 :: ProviderPodcastResult where
  "podcast_pop4 = blank_podcast \<lparr> title := ''Daily News'', popularity := Some 4,
     explicit := Some True, source := podcast_index \<rparr>"

text \<open>
  Two podcasts as the ranker may receive them: the first has Podcast Index as its
  \<open>source\<close> and lists Podcast Index and Apple as \<open>sourceProviders\<close>; the second
  comes from Apple alone.
\<close>

definition podcast_x :: ProviderPodcastResult where
  "podcast_x = blank_podcast \<lparr> title := ''x'', source := podcast_index,
     sourceProviders := Some [podcast_index, apple], popularity := Some 10 \<rparr>"

definition podcast_y :: ProviderPodcastResult where
  "podcast_y = blank_podcast \<lparr> title := ''y'', source := apple,
     sourceProviders := Some [apple], popularity := Some 5 \<rparr>"

text \<open>The values of \<open>RadioProviderName\<close> as the strings they are at run time.\<close>

fun radio_provider_string :: "RadioProviderName \<Rightarrow> string" where
  "radio_provider_string radio_browser = ''radio_browser''"
| "radio_provider_string radionet = ''radionet''"
| "radio_provider_string shoutcast = ''shoutcast''"

text \<open>A request for \<open>news\<close> with limit 1, and the settings of \<open>podcast.config.ts\<close>.\<close>

definition default_settings :: SearchSettings where
  "default_settings = \<lparr> defaultLimit = Some 20, maxLimit = Some 50,
     searchCacheTtlMs = Some 3600000 \<rparr>"

definition news_request :: SearchQueryDto where
  "news_request = \<lparr> dto_page = Some 1, dto_limit = Some 1, dto_query = Some ''news'',
     dto_country = None, dto_language = None, dto_tag = None, dto_providers = None \<rparr>"

text \<open>
  Two providers answer with one podcast each; the adapters set \<open>source\<close> and leave
  \<open>sourceProviders\<close> unset.
\<close>

definition apple_item :: ProviderPodcastResult where
  "apple_item = blank_podcast \<lparr> pid := Some ''1'', title := ''Morning News'',
     feedUrl := Some ''https://a.example/feed'', source := apple \<rparr>"

definition index_item :: ProviderPodcastResult where
  "index_item = blank_podcast \<lparr> pid := Some ''2'', title := ''Evening News'',
     feedUrl := Some ''https://b.example/feed'', source := podcast_index \<rparr>"

definition two_answers :: "(ProviderName \<times> ProviderPodcastResult list settled) list" where
  "two_answers = [(apple, Fulfilled [apple_item]), (podcast_index, Fulfilled [index_item])]"

definition radio_answers :: "(RadioProviderName \<times> ProviderRadioResult list settled) list" where
  "radio_answers = [(radio_browser, Fulfilled [station_a]), (radionet, Fulfilled [station_b])]"

definition station_a_stamped :: ProviderRadioResult where
  "station_a_stamped = station_a \<lparr> r_sourceProviders := Some [radio_browser] \<rparr>"

definition jazz_request :: SearchQueryDto where
  "jazz_request = \<lparr> dto_page = None, dto_limit = None, dto_query = Some ''jazz'',
     dto_country = None, dto_language = None, dto_tag = None, dto_providers = None \<rparr>"

text \<open>
  The same show as two providers list it: first without a feed URL, then with one; and
  a show listed first with feed URL and iTunes id, then with the iTunes id alone.
\<close>

definition news_plain :: ProviderPodcastResult where
  "news_plain = blank_podcast \<lparr> title := ''Daily News'', authorName := Some ''Ann'',
     source := apple \<rparr>"

definition news_with_feed :: ProviderPodcastResult where
  "news_with_feed = blank_podcast \<lparr> title := ''Daily News'', authorName := Some ''Ann'',
     feedUrl := Some ''https://f'', source := podcast_index \<rparr>"

definition show_with_feed :: ProviderPodcastResult where
  "show_with_feed = blank_podcast \<lparr> title := ''Tech Talk'', feedUrl := Some ''https://t/feed'',
     itunesId := Some ''42'', source := apple \<rparr>"

definition show_without_feed :: ProviderPodcastResult where
  "show_without_feed = blank_podcast \<lparr> title := ''Tech Talk Weekly'',
     itunesId := Some ''42'', source := podcast_index \<rparr>"

text \<open>
  The cache key in the words of the specification:
  \<open><namespace>:<query>:<filter1>:...:<limit>:<providersCSV>\<close>, the provider list sorted
  ascending and a missing provider list written \<open>all\<close>.
\<close>

definition spec_cacheKey ::
  "string \<Rightarrow> string \<Rightarrow> string list \<Rightarrow> int \<Rightarrow> string list option \<Rightarrow> string" where
  "spec_cacheKey namespace query filters lim providers =
     join '':'' ([namespace, query] @ filters @
       [show_int lim,
        (case providers of None \<Rightarrow> ''all'' | Some ps \<Rightarrow> join '','' (sort ps))])"

section \<open>Rate limiter\<close>

text \<open>
  The \<open>cache-manager\<close> store behind \<open>RateLimiterService\<close>: a key holds a number and the
  instant (in milliseconds) at which the entry expires; \<open>get\<close> at or after that instant
  is a miss. \<open>now\<close> is the time of the call.
\<close>

type_synonym rl_cache = "string \<Rightarrow> (int \<times> int) option"

definition cache_get :: "rl_cache \<Rightarrow> int \<Rightarrow> string \<Rightarrow> int option" where
  "cache_get c now k =
     (case c k of None \<Rightarrow> None
      | Some (v, expires) \<Rightarrow> if now < expires then Some v else None)"

definition cache_set :: "rl_cache \<Rightarrow> int \<Rightarrow> string \<Rightarrow> int \<Rightarrow> int \<Rightarrow> rl_cache" where
  "cache_set c now k v ttlMs = c(k \<mapsto> (v, now + ttlMs))"

definition buildKey :: "ProviderName \<Rightarrow> string" where
  "buildKey provider = ''ratelimit:podcast:'' @ provider_string provider"

definition getRemainingTtl :: "string \<Rightarrow> int option" where
  "getRemainingTtl key = None"

definition getTtl :: "string \<Rightarrow> int \<Rightarrow> int" where
  "getTtl key defaultSeconds = defaultSeconds"

text \<open>\<open>getUsage\<close> returns \<open>(used, resetInSeconds)\<close> and the store after the call.\<close>

definition getUsage ::
  "rl_cache \<Rightarrow> int \<Rightarrow> ProviderName \<Rightarrow> int \<Rightarrow> int \<Rightarrow> (int \<times> int option) \<times> rl_cache" where
  "getUsage c now provider lim periodSeconds =
     (let key = buildKey provider;
          used = or_zero (cache_get c now key)
      in case getRemainingTtl key of
           Some ttlSeconds \<Rightarrow> ((used, Some ttlSeconds), c)
         | None \<Rightarrow> ((used, Some periodSeconds), cache_set c now key used (periodSeconds * 1000)))"

definition canMakeRequest ::
  "rl_cache \<Rightarrow> int \<Rightarrow> ProviderName \<Rightarrow> int option \<Rightarrow> int option \<Rightarrow> bool \<times> rl_cache" where
  "canMakeRequest c now provider lim periodSeconds =
     (if \<not> truthy_num lim \<or> \<not> truthy_num periodSeconds then (True, c)
      else let stats = getUsage c now provider (the lim) (the periodSeconds)
           in (fst (fst stats) < the lim, snd stats))"

definition recordRequest ::
  "rl_cache \<Rightarrow> int \<Rightarrow> ProviderName \<Rightarrow> int option \<Rightarrow> int option \<Rightarrow> rl_cache" where
  "recordRequest c now provider lim periodSeconds =
     (if \<not> truthy_num lim \<or> \<not> truthy_num periodSeconds then c
      else let key = buildKey provider;
               current = or_zero (cache_get c now key);
               ttl = getTtl key (the periodSeconds)
           in cache_set c now key (current + 1) (ttl * 1000))"

section \<open>\<open>PodcastIndexProvider.search\<close>\<close>

record ProviderSearchParams =
  sp_query :: string
  sp_limit :: int
  sp_language :: "string option"

text \<open>One element of \<open>response.data.feeds\<close>, with the properties the adapter reads.\<close>

record Feed =
  feed_id :: "int option"
  feed_title :: string
  feed_author :: "string option"
  feed_description :: "string option"
  feed_image :: "string option"
  feed_url :: "string option"
  feed_itunesId :: "int option"
  feed_categories :: "string list option"
  feed_episodeCount :: "int option"
  feed_language :: "string option"
  feed_link :: "string option"
  feed_explicit :: "int option"
  feed_lastUpdateTime :: "int option"

text \<open>
  The outcome of the HTTP request, were it issued: the response body, or a thrown error.
\<close>

datatype 'a response = Responded 'a | Failed

text \<open>\<open>toISOString\<close> of a date belongs to the runtime and is the parameter \<open>toISO\<close>.\<close>

definition feed_to_result :: "(int \<Rightarrow> string) \<Rightarrow> Feed \<Rightarrow> ProviderPodcastResult" where
  "feed_to_result toISO feed =
     \<lparr> pid = map_option show_int (feed_id feed),
       title = feed_title feed,
       authorName = feed_author feed,
       description = feed_description feed,
       imageUrl = feed_image feed,
       feedUrl = feed_url feed,
       itunesId = map_option show_int (feed_itunesId feed),
       categories = Some (or_list (feed_categories feed)),
       episodeCount = feed_episodeCount feed,
       language = feed_language feed,
       websiteUrl = feed_link feed,
       source = podcast_index,
       sourceProviders = None,
       lastUpdated =
         (if truthy_num (feed_lastUpdateTime feed)
          then Some (toISO (the (feed_lastUpdateTime feed) * 1000)) else None),
       explicit = Some (feed_explicit feed = Some 1),
       country = None,
       popularity = None \<rparr>"

text \<open>
  The search of the Podcast Index adapter. \<open>t_admit\<close> is the time of the admission
  check and \<open>t_record\<close> the time at which the response has arrived. The result is the
  item list, the number of upstream requests issued, and the store after the call.
\<close>

definition index_search ::
  "ProviderConfig option \<Rightarrow> (int \<Rightarrow> string) \<Rightarrow> rl_cache \<Rightarrow> int \<Rightarrow> int
     \<Rightarrow> Feed list option response \<Rightarrow> ProviderSearchParams
     \<Rightarrow> ProviderPodcastResult list \<times> nat \<times> rl_cache" where
  "index_search config toISO c t_admit t_record upstream params =
     (case config of
        None \<Rightarrow> ([], 0, c)
      | Some cfg \<Rightarrow>
          if \<not> enabled cfg then ([], 0, c)
          else if sp_query params = [] then ([], 0, c)
          else if \<not> truthy_str (apiKey cfg) \<or> \<not> truthy_str (apiSecret cfg) then ([], 0, c)
          else let admit = canMakeRequest c t_admit podcast_index
                             (rateLimit cfg) (rateLimitPeriodSeconds cfg)
               in if \<not> fst admit then ([], 0, snd admit)
                  else case upstream of
                         Failed \<Rightarrow> ([], 1, snd admit)
                       | Responded feeds \<Rightarrow>
                           (map (feed_to_result toISO) (or_list feeds), 1,
                            recordRequest (snd admit) t_record podcast_index
                              (rateLimit cfg) (rateLimitPeriodSeconds cfg)))"

text \<open>The usage count of the Podcast Index provider as a call at time \<open>now\<close> reads it.\<close>

definition usage_count :: "rl_cache \<Rightarrow> int \<Rightarrow> ProviderName \<Rightarrow> int" where
  "usage_count c now provider = or_zero (cache_get c now (buildKey provider))"

text \<open>
  A quota of two requests per sixty seconds for the Taddy provider: two searches are
  admitted and recorded, the first at time 0 and the second after 50 seconds.
\<close>

definition after_first_request :: rl_cache where
  "after_first_request =
     recordRequest (snd (canMakeRequest (\<lambda>k. None) 0 taddy (Some 2) (Some 60)))
       0 taddy (Some 2) (Some 60)"

definition after_second_request :: rl_cache where
  "after_second_request =
     recordRequest (snd (canMakeRequest after_first_request 50000 taddy (Some 2) (Some 60)))
       50000 taddy (Some 2) (Some 60)"

text \<open>A Podcast Index configuration with credentials and a quota of 500 per 30 days.\<close>

definition index_config :: ProviderConfig where
  "index_config = (provider_config True 2 5000)
     \<lparr> apiKey := Some ''key'', apiSecret := Some ''secret'', rateLimit := Some 500,
       rateLimitPeriodSeconds := Some 2592000 \<rparr>"

definition news_params :: ProviderSearchParams where
  "news_params = \<lparr> sp_query = ''news'', sp_limit = 20, sp_language = None \<rparr>"

definition one_feed :: Feed where
  "one_feed = \<lparr> feed_id = Some 75075, feed_title = ''Daily News'', feed_author = Some ''Ann'',
     feed_description = None, feed_image = None, feed_url = Some ''https://f'',
     feed_itunesId = Some 42, feed_categories = None, feed_episodeCount = Some 10,
     feed_language = Some ''en'', feed_link = None, feed_explicit = Some 0,
     feed_lastUpdateTime = None \<rparr>"

text \<open>A stand-in for \<open>toISOString\<close> at concrete inputs.\<close>

definition fixed_iso :: "int \<Rightarrow> string" where
  "fixed_iso ms = ''1970-01-01T00:00:00.000Z''"

section \<open>Feed parser: \<open>PodcastIndexService.fetchAndParseRssFeed\<close>\<close>

definition is_digit :: "char \<Rightarrow> bool" where
  "is_digit c = ((48::nat) \<le> of_char c \<and> of_char c \<le> (57::nat))"

definition digit_value :: "char \<Rightarrow> nat" where
  "digit_value c = of_char c - 48"

definition digits_value :: "string \<Rightarrow> nat" where
  "digits_value ds = foldl (\<lambda>acc c. acc * 10 + digit_value c) 0 ds"

text \<open>
  \<open>parseInt(s, 10)\<close>: leading white space is skipped, a sign is read, and the longest
  run of decimal digits that follows is the value; \<open>None\<close> is \<open>NaN\<close> (no digit there).
  The value is the code's while it is a safe integer; a longer digit run is rounded to
  the nearest number by \<open>parseInt\<close>, which the model does not follow.
\<close>

definition parseInt10 :: "string \<Rightarrow> int option" where
  "parseInt10 s =
     (let t = dropWhile is_space s;
          negative = (t \<noteq> [] \<and> hd t = CHR ''-'');
          rest = (if t \<noteq> [] \<and> (hd t = CHR ''-'' \<or> hd t = CHR ''+'') then tl t else t);
          ds = takeWhile is_digit rest
      in if ds = [] then None
         else Some (if negative then - int (digits_value ds) else int (digits_value ds)))"

text \<open>
  \<open>parseInt(item['itunes:duration'], 10) || null\<close>: a missing element reads as the
  text \<open>undefined\<close>, which has no digits; \<open>NaN\<close> and 0 are falsy and give \<open>null\<close>.
\<close>

definition episode_duration :: "string option \<Rightarrow> int option" where
  "episode_duration d =
     (case d of
        None \<Rightarrow> None
      | Some s \<Rightarrow> (case parseInt10 s of None \<Rightarrow> None | Some n \<Rightarrow> if n = 0 then None else Some n))"

text \<open>
  The parsed XML, as \<open>xml2js\<close> delivers it with \<open>explicitArray: false\<close> and
  \<open>mergeAttrs: true\<close>: an \<open>item\<close> with its child elements, the \<open>enclosure\<close> with its
  \<open>url\<close> attribute, a \<open>guid\<close> that is a text or an object with an optional \<open>_text\<close>.
\<close>

datatype guid_value = GuidString string | GuidObject "string option"

record Enclosure =
  enc_url :: "string option"

record FeedItem =
  item_title :: "string option"
  item_description :: "string option"
  item_summary :: "string option"
  item_guid :: "guid_value option"
  item_enclosure :: "Enclosure option"
  item_itunes_duration :: "string option"
  item_image_url :: "string option"
  item_itunes_image_href :: "string option"
  item_pubDate :: "string option"

record Episode =
  ep_title :: "string option"
  ep_description :: "string option"
  ep_guid :: "guid_value option"
  ep_audioUrl :: "string option"
  ep_duration :: "int option"
  ep_imageUrl :: "string option"
  ep_publishDate :: "int option"

text \<open>\<open>channel.item\<close> is absent, a single item, or an array of items.\<close>

datatype channel_items = NoItem | OneItem FeedItem | ItemArray "FeedItem list"

record Channel =
  ch_title :: "string option"
  ch_description :: "string option"
  ch_image_url :: "string option"
  ch_itunes_image_href :: "string option"
  ch_itunes_author :: "string option"
  ch_author :: "string option"
  ch_language :: "string option"
  ch_link :: "string option"
  ch_item :: channel_items

record ParsedPodcast =
  pp_title :: "string option"
  pp_description :: "string option"
  pp_imageUrl :: "string option"
  pp_authorName :: "string option"
  pp_language :: "string option"
  pp_websiteUrl :: "string option"
  pp_rssUrl :: string

definition parsed_podcast :: "Channel \<Rightarrow> string \<Rightarrow> ParsedPodcast" where
  "parsed_podcast channel rssUrl =
     \<lparr> pp_title = ch_title channel,
       pp_description = ch_description channel,
       pp_imageUrl = or_str (ch_image_url channel) (ch_itunes_image_href channel),
       pp_authorName = or_str (ch_itunes_author channel) (ch_author channel),
       pp_language = (if truthy_str (ch_language channel) then ch_language channel
                      else Some ''unknown''),
       pp_websiteUrl = ch_link channel,
       pp_rssUrl = rssUrl \<rparr>"

text \<open>
  The episode built from an item that has an enclosure. \<open>new Date(item.pubDate)\<close>
  belongs to the runtime and is the parameter \<open>parseDate\<close>.
\<close>

definition episode_of ::
  "(string option \<Rightarrow> int option) \<Rightarrow> ParsedPodcast \<Rightarrow> FeedItem \<Rightarrow> Enclosure \<Rightarrow> Episode" where
  "episode_of parseDate podcast item enclosure =
     \<lparr> ep_title = item_title item,
       ep_description = or_str (item_description item) (item_summary item),
       ep_guid =
         (case item_guid item of
            Some (GuidObject (Some t)) \<Rightarrow> if t \<noteq> [] then Some (GuidString t) else item_guid item
          | g \<Rightarrow> g),
       ep_audioUrl = enc_url enclosure,
       ep_duration = episode_duration (item_itunes_duration item),
       ep_imageUrl =
         or_str (item_image_url item) (or_str (item_itunes_image_href item) (pp_imageUrl podcast)),
       ep_publishDate = parseDate (item_pubDate item) \<rparr>"

definition channel_item_list :: "channel_items \<Rightarrow> FeedItem option list" where
  "channel_item_list items =
     (case items of NoItem \<Rightarrow> [None] | OneItem i \<Rightarrow> [Some i] | ItemArray xs \<Rightarrow> map Some xs)"

text \<open>\<open>.filter((item) => item && item.enclosure).map(...)\<close>.\<close>

definition parse_episodes ::
  "(string option \<Rightarrow> int option) \<Rightarrow> ParsedPodcast \<Rightarrow> channel_items \<Rightarrow> Episode list" where
  "parse_episodes parseDate podcast items =
     List.map_filter
       (\<lambda>i. case i of
              None \<Rightarrow> None
            | Some item \<Rightarrow>
                (case item_enclosure item of
                   None \<Rightarrow> None
                 | Some enclosure \<Rightarrow> Some (episode_of parseDate podcast item enclosure)))
       (channel_item_list items)"

datatype feed_error = BadRequest

text \<open>
  \<open>upstream\<close> is the outcome of fetching and parsing the document: \<open>Failed\<close> when the
  request or the XML parser throws, otherwise \<open>feed.rss?.channel\<close>. Every thrown error
  becomes the \<open>HttpException\<close> with status \<open>BAD_REQUEST\<close>.
\<close>

definition fetchAndParseRssFeed ::
  "(string option \<Rightarrow> int option) \<Rightarrow> Channel option response \<Rightarrow> string
     \<Rightarrow> feed_error + ParsedPodcast \<times> Episode list" where
  "fetchAndParseRssFeed parseDate upstream rssUrl =
     (case upstream of
        Failed \<Rightarrow> Inl BadRequest
      | Responded None \<Rightarrow> Inl BadRequest
      | Responded (Some channel) \<Rightarrow>
          (let podcast = parsed_podcast channel rssUrl
           in Inr (podcast, parse_episodes parseDate podcast (ch_item channel))))"

text \<open>
  The duration in the words of the specification: a seconds integer, or \<open>HH:MM:SS\<close> or
  \<open>MM:SS\<close>; anything else is \<open>null\<close>.
\<close>

fun split_colon :: "string \<Rightarrow> string list" where
  "split_colon [] = [[]]"
| "split_colon (c # cs) =
     (if c = CHR '':'' then [] # split_colon cs
      else (case split_colon cs of [] \<Rightarrow> [[c]] | p # ps \<Rightarrow> (c # p) # ps))"

definition all_digits :: "string \<Rightarrow> bool" where
  "all_digits s = (s \<noteq> [] \<and> list_all is_digit s)"

definition spec_parse_duration :: "string \<Rightarrow> int option" where
  "spec_parse_duration s =
     (case split_colon s of
        [sec] \<Rightarrow> if all_digits sec then Some (int (digits_value sec)) else None
      | [m, sec] \<Rightarrow>
          if all_digits m \<and> all_digits sec
          then Some (int (digits_value m * 60 + digits_value sec)) else None
      | [h, m, sec] \<Rightarrow>
          if all_digits h \<and> all_digits m \<and> all_digits sec
          then Some (int (digits_value h * 3600 + digits_value m * 60 + digits_value sec))
          else None
      | _ \<Rightarrow> None)"

text \<open>
  A feed with three items: one without an enclosure, one of an hour, two minutes and
  three seconds, and one whose duration is no number.
\<close>

definition blank_item :: FeedItem where
  "blank_item = \<lparr> item_title = None, item_description = None, item_summary = None,
     item_guid = None, item_enclosure = None, item_itunes_duration = None,
     item_image_url = None, item_itunes_image_href = None, item_pubDate = None \<rparr>"

definition text_only_item :: FeedItem where
  "text_only_item = blank_item \<lparr> item_title := Some ''Trailer'',
     item_itunes_duration := Some ''30'' \<rparr>"

definition hms_item :: FeedItem where
  "hms_item = blank_item \<lparr> item_title := Some ''Episode 1'',
     item_guid := Some (GuidString ''ep-1''),
     item_enclosure := Some \<lparr> enc_url = Some ''https://f/1.mp3'' \<rparr>,
     item_itunes_duration := Some ''01:02:03'' \<rparr>"

definition odd_item :: FeedItem where
  "odd_item = blank_item \<lparr> item_title := Some ''Episode 2'',
     item_guid := Some (GuidString ''ep-2''),
     item_enclosure := Some \<lparr> enc_url = Some ''https://f/2.mp3'' \<rparr>,
     item_itunes_duration := Some ''about an hour'' \<rparr>"

definition seconds_item :: FeedItem where
  "seconds_item = blank_item \<lparr> item_title := Some ''Episode 3'',
     item_guid := Some (GuidString ''ep-3''),
     item_enclosure := Some \<lparr> enc_url = Some ''https://f/3.mp3'' \<rparr>,
     item_itunes_duration := Some ''3600'' \<rparr>"

definition sample_channel :: Channel where
  "sample_channel = \<lparr> ch_title = Some ''Daily News'', ch_description = None,
     ch_image_url = None, ch_itunes_image_href = None, ch_itunes_author = Some ''Ann'',
     ch_author = None, ch_language = Some ''en'', ch_link = None,
     ch_item = ItemArray [text_only_item, hms_item, odd_item, seconds_item] \<rparr>"

text \<open>A stand-in for \<open>new Date\<close> at concrete inputs: every date is invalid.\<close>

definition no_date :: "string option \<Rightarrow> int option" where
  "no_date s = None"

definition feed_durations :: "feed_error + ParsedPodcast \<times> Episode list \<Rightarrow> int option list option" where
  "feed_durations r = (case r of Inl e \<Rightarrow> None | Inr (p, eps) \<Rightarrow> Some (map ep_duration eps))"

section \<open>Theorems\<close>

text \<open>
  Claim C9, as the code has it: the merged \<open>explicit\<close> flag is the target's value
  whenever the target's value is known, and the incoming item's value otherwise
  (\<open>target.explicit ?? incoming.explicit\<close>).
\<close>

theorem mergePodcast_explicit:
  "explicit (mergePodcast target incoming) =
     (case explicit target of Some b \<Rightarrow> Some b | None \<Rightarrow> explicit incoming)"
  by (simp add: mergePodcast_def nullish_def)


subsection \<open>Facts about the runtime functions\<close>

lemma set_insert_cmp: "set (insert_cmp c x ys) = insert x (set ys)"
  by (induction ys) auto

lemma mset_insert_cmp: "mset (insert_cmp c x ys) = add_mset x (mset ys)"
  by (induction ys) auto

lemma mset_array_sort: "mset (array_sort c xs) = mset xs"
  unfolding array_sort_def by (induction xs) (auto simp: mset_insert_cmp)

lemma set_array_sort: "set (array_sort c xs) = set xs"
  unfolding array_sort_def by (induction xs) (auto simp: set_insert_cmp)

lemma length_array_sort: "length (array_sort c xs) = length xs"
  using mset_array_sort [of c xs] by (metis size_mset)







subsection \<open>The comparators\<close>














theorem mergePodcast_explicit_witness:
  "explicit (mergePodcast podcast_pop3 podcast_pop4) = Some False"
proof -
  have "explicit podcast_pop3 = Some False"
    by code_simp
  with mergePodcast_explicit [of podcast_pop3 podcast_pop4] show ?thesis by simp
qed

theorem mergePodcast_explicit_not_or:
  "explicit (mergePodcast podcast_pop3 podcast_pop4)
     \<noteq> spec_merge_explicit (explicit podcast_pop3) (explicit podcast_pop4)"
  by code_simp









subsection \<open>Provenance through merge, dedupe and search\<close>

lemma set_array_from_set: "set (array_from_set xs) = set xs"
  by (simp add: array_from_set_def)

lemma set_map_set_values: "set (map_values (map_set k v m)) \<subseteq> insert v (set (map_values m))"
  by (induction m) (force simp: map_values_def split: if_splits)+

lemma map_get_values: "map_get m k = Some v \<Longrightarrow> v \<in> set (map_values m)"
  unfolding map_get_def map_values_def by (metis map_of_SomeD snd_conv image_eqI set_map)

lemma lookup_key_values: "lookup_key m k = Some v \<Longrightarrow> v \<in> set (map_values m)"
  by (auto simp: lookup_key_def dest: map_get_values split: if_splits)

lemma mergePodcast_provenance:
  "source t \<in> set (or_list (sourceProviders t)) \<Longrightarrow>
   source (mergePodcast t i) = source t \<and>
   source (mergePodcast t i) \<in> set (or_list (sourceProviders (mergePodcast t i)))"
  by (simp add: mergePodcast_def set_array_from_set or_list_def)

lemma mergeStation_provenance:
  "r_source t \<in> set (or_list (r_sourceProviders t)) \<Longrightarrow>
   r_source (mergeStation t i) = r_source t \<and>
   r_source (mergeStation t i) \<in> set (or_list (r_sourceProviders (mergeStation t i)))"
  by (simp add: mergeStation_def set_array_from_set or_list_def)

lemma dedupe_step_provenance:
  assumes "\<forall>r\<in>set (map_values m). source r \<in> set (or_list (sourceProviders r))"
  shows "\<forall>r\<in>set (map_values (dedupe_step m item)). source r \<in> set (or_list (sourceProviders r))"
proof -
  let ?fresh = "item \<lparr> sourceProviders :=
      Some (array_from_set (or_list (sourceProviders item) @ [source item])) \<rparr>"
  have fresh: "source ?fresh \<in> set (or_list (sourceProviders ?fresh))"
    by (simp add: set_array_from_set or_list_def)
  have merged: "source (mergePodcast e item) \<in> set (or_list (sourceProviders (mergePodcast e item)))"
    if "e \<in> set (map_values m)" for e
    using that assms mergePodcast_provenance by blast
  show ?thesis
    using set_map_set_values fresh merged assms
    unfolding dedupe_step_def Let_def
    by (auto split: option.splits dest!: lookup_key_values
        dest: subsetD [OF set_map_set_values])
qed

lemma foldl_dedupe_provenance:
  "\<forall>r\<in>set (map_values m). source r \<in> set (or_list (sourceProviders r)) \<Longrightarrow>
   \<forall>r\<in>set (map_values (foldl dedupe_step m xs)). source r \<in> set (or_list (sourceProviders r))"
proof (induction xs arbitrary: m)
  case Nil
  then show ?case by simp
next
  case (Cons x xs)
  from Cons.prems have "\<forall>r\<in>set (map_values (dedupe_step m x)).
      source r \<in> set (or_list (sourceProviders r))"
    by (rule dedupe_step_provenance)
  then show ?case using Cons.IH by simp
qed

lemma deduplicateResults_provenance:
  "\<forall>r\<in>set (deduplicateResults xs). source r \<in> set (or_list (sourceProviders r))"
  unfolding deduplicateResults_def
  by (rule foldl_dedupe_provenance) (simp add: map_values_def)

lemma radio_dedupe_step_provenance:
  assumes "\<forall>r\<in>set (map_values m). r_source r \<in> set (or_list (r_sourceProviders r))"
  shows "\<forall>r\<in>set (map_values (radio_dedupe_step pu m item)).
           r_source r \<in> set (or_list (r_sourceProviders r))"
proof -
  let ?fresh = "item \<lparr> r_sourceProviders :=
      Some (array_from_set (or_list (r_sourceProviders item) @ [r_source item])) \<rparr>"
  have fresh: "r_source ?fresh \<in> set (or_list (r_sourceProviders ?fresh))"
    by (simp add: set_array_from_set or_list_def)
  have merged: "r_source (mergeStation e item)
      \<in> set (or_list (r_sourceProviders (mergeStation e item)))"
    if "e \<in> set (map_values m)" for e
    using that assms mergeStation_provenance by blast
  show ?thesis
    using fresh merged assms
    unfolding radio_dedupe_step_def Let_def
    by (auto split: option.splits dest!: map_get_values
        dest: subsetD [OF set_map_set_values])
qed

lemma foldl_radio_dedupe_provenance:
  "\<forall>r\<in>set (map_values m). r_source r \<in> set (or_list (r_sourceProviders r)) \<Longrightarrow>
   \<forall>r\<in>set (map_values (foldl (radio_dedupe_step pu) m xs)).
      r_source r \<in> set (or_list (r_sourceProviders r))"
proof (induction xs arbitrary: m)
  case Nil
  then show ?case by simp
next
  case (Cons x xs)
  from Cons.prems have "\<forall>r\<in>set (map_values (radio_dedupe_step pu m x)).
      r_source r \<in> set (or_list (r_sourceProviders r))"
    by (rule radio_dedupe_step_provenance)
  then show ?case using Cons.IH by simp
qed

lemma radio_deduplicateResults_provenance:
  "\<forall>r\<in>set (radio_deduplicateResults pu xs). r_source r \<in> set (or_list (r_sourceProviders r))"
  unfolding radio_deduplicateResults_def
  by (rule foldl_radio_dedupe_provenance) (simp add: map_values_def)

lemma provider_string_nonempty: "provider_string p \<noteq> []"
  by (cases p) simp_all

lemma radio_provider_string_nonempty: "radio_provider_string p \<noteq> []"
  by (cases p) simp_all

lemma podcast_search_fresh:
  "fst (podcast_search settings configs lc cache providers dto) = res \<Longrightarrow>
   res = [] \<or>
   (\<exists>k. cache k = Some res) \<or>
   res = sortResultsByPriority configs lc (deduplicateResults (concat (map stamp providers)))"
  by (auto simp: podcast_search_def Let_def split: if_splits option.splits)

lemma podcast_search_cache:
  "snd (podcast_search settings configs lc cache providers dto) k = Some items \<Longrightarrow>
   cache k = Some items \<or>
   items = sortResultsByPriority configs lc (deduplicateResults (concat (map stamp providers)))"
  by (auto simp: podcast_search_def Let_def split: if_splits option.splits)

lemma radio_search_fresh:
  "fst (radio_search pu rp lc cache providers dto) = res \<Longrightarrow>
   res = [] \<or>
   (\<exists>k. cache k = Some res) \<or>
   (\<exists>n. res = take n (radio_sortResultsByPriority rp lc
              (radio_deduplicateResults pu (concat (map radio_stamp providers)))))"
  by (auto simp: radio_search_def Let_def split: if_splits option.splits)

lemma radio_search_cache:
  "snd (radio_search pu rp lc cache providers dto) k = Some items \<Longrightarrow>
   cache k = Some items \<or>
   (\<exists>n. items = take n (radio_sortResultsByPriority rp lc
              (radio_deduplicateResults pu (concat (map radio_stamp providers)))))"
  by (auto simp: radio_search_def Let_def split: if_splits option.splits)

lemma sorted_podcasts_provenance:
  "\<forall>r\<in>set (sortResultsByPriority configs lc (deduplicateResults xs)).
     source r \<in> set (or_list (sourceProviders r))"
  using deduplicateResults_provenance [of xs]
  by (simp add: sortResultsByPriority_def set_array_sort)

lemma sorted_stations_provenance:
  "\<forall>r\<in>set (take n (radio_sortResultsByPriority rp lc (radio_deduplicateResults pu xs))).
     r_source r \<in> set (or_list (r_sourceProviders r))"
  using radio_deduplicateResults_provenance [of pu xs]
  by (auto simp: radio_sortResultsByPriority_def set_array_sort dest: in_set_takeD)

text \<open>
  Claim C6: whatever lists the provider adapters returned, every item a search returns
  has a \<open>source\<close> (a provider name, hence a non-empty string) that is a member of the
  item's \<open>sourceProviders\<close>, for podcasts and for stations. A cached list is returned as
  it was stored, so the statement is an invariant of the result cache: if it holds of
  every cached list before a search, it holds of the returned list and of every cached
  list after the search. Each merge keeps the target's \<open>source\<close> and its membership.
\<close>

theorem search_source_in_sourceProviders:
  assumes pcache: "\<forall>k items. pcache k = Some items \<longrightarrow>
      (\<forall>r\<in>set items. source r \<in> set (or_list (sourceProviders r)))"
    and rcache: "\<forall>k items. rcache k = Some items \<longrightarrow>
      (\<forall>r\<in>set items. r_source r \<in> set (or_list (r_sourceProviders r)))"
  shows
    "(\<forall>r\<in>set (fst (podcast_search settings configs lc pcache providers dto)).
        provider_string (source r) \<noteq> [] \<and> source r \<in> set (or_list (sourceProviders r))) \<and>
     (\<forall>k items. snd (podcast_search settings configs lc pcache providers dto) k = Some items \<longrightarrow>
        (\<forall>r\<in>set items. source r \<in> set (or_list (sourceProviders r)))) \<and>
     (\<forall>r\<in>set (fst (radio_search pu rp lc rcache rproviders rdto)).
        radio_provider_string (r_source r) \<noteq> [] \<and>
        r_source r \<in> set (or_list (r_sourceProviders r))) \<and>
     (\<forall>k items. snd (radio_search pu rp lc rcache rproviders rdto) k = Some items \<longrightarrow>
        (\<forall>r\<in>set items. r_source r \<in> set (or_list (r_sourceProviders r)))) \<and>
     (source t \<in> set (or_list (sourceProviders t)) \<longrightarrow>
        source (mergePodcast t i) = source t \<and>
        source (mergePodcast t i) \<in> set (or_list (sourceProviders (mergePodcast t i)))) \<and>
     (r_source st \<in> set (or_list (r_sourceProviders st)) \<longrightarrow>
        r_source (mergeStation st si) = r_source st \<and>
        r_source (mergeStation st si) \<in> set (or_list (r_sourceProviders (mergeStation st si))))"
proof (intro conjI)
  show "\<forall>r\<in>set (fst (podcast_search settings configs lc pcache providers dto)).
        provider_string (source r) \<noteq> [] \<and> source r \<in> set (or_list (sourceProviders r))"
    using podcast_search_fresh [OF refl, of settings configs lc pcache providers dto]
      pcache sorted_podcasts_provenance [of configs lc "concat (map stamp providers)"]
    by (auto simp: provider_string_nonempty)
  show "\<forall>k items. snd (podcast_search settings configs lc pcache providers dto) k = Some items \<longrightarrow>
        (\<forall>r\<in>set items. source r \<in> set (or_list (sourceProviders r)))"
    using podcast_search_cache [of settings configs lc pcache providers dto]
      pcache sorted_podcasts_provenance [of configs lc "concat (map stamp providers)"]
    by blast
  show "\<forall>r\<in>set (fst (radio_search pu rp lc rcache rproviders rdto)).
        radio_provider_string (r_source r) \<noteq> [] \<and>
        r_source r \<in> set (or_list (r_sourceProviders r))"
    using radio_search_fresh [OF refl, of pu rp lc rcache rproviders rdto]
      rcache sorted_stations_provenance [of _ rp lc pu "concat (map radio_stamp rproviders)"]
    by (auto simp: radio_provider_string_nonempty)
  show "\<forall>k items. snd (radio_search pu rp lc rcache rproviders rdto) k = Some items \<longrightarrow>
        (\<forall>r\<in>set items. r_source r \<in> set (or_list (r_sourceProviders r)))"
    using radio_search_cache [of pu rp lc rcache rproviders rdto]
      rcache sorted_stations_provenance [of _ rp lc pu "concat (map radio_stamp rproviders)"]
    by blast
  show "source t \<in> set (or_list (sourceProviders t)) \<longrightarrow>
        source (mergePodcast t i) = source t \<and>
        source (mergePodcast t i) \<in> set (or_list (sourceProviders (mergePodcast t i)))"
    using mergePodcast_provenance by blast
  show "r_source st \<in> set (or_list (r_sourceProviders st)) \<longrightarrow>
        r_source (mergeStation st si) = r_source st \<and>
        r_source (mergeStation st si) \<in> set (or_list (r_sourceProviders (mergeStation st si)))"
    using mergeStation_provenance by blast
qed

theorem search_source_in_sourceProviders_witness:
  "fst (podcast_search default_settings default_configs byte_compare (\<lambda>k. None)
          two_answers news_request) \<noteq> [] \<and>
   list_all (\<lambda>r. source r \<in> set (or_list (sourceProviders r)))
     (fst (podcast_search default_settings default_configs byte_compare (\<lambda>k. None)
             two_answers news_request)) \<and>
   fst (radio_search simple_parse_url default_radio_priority byte_compare (\<lambda>k. None)
          radio_answers jazz_request) \<noteq> [] \<and>
   list_all (\<lambda>r. r_source r \<in> set (or_list (r_sourceProviders r)))
     (fst (radio_search simple_parse_url default_radio_priority byte_compare (\<lambda>k. None)
             radio_answers jazz_request)) \<and>
   source (mergePodcast podcast_x podcast_y)
     \<in> set (or_list (sourceProviders (mergePodcast podcast_x podcast_y))) \<and>
   r_source (mergeStation station_a_stamped station_b)
     \<in> set (or_list (r_sourceProviders (mergeStation station_a_stamped station_b)))"
proof -
  have pc: "\<forall>k items. (\<lambda>k. None :: ProviderPodcastResult list option) k = Some items \<longrightarrow>
      (\<forall>r\<in>set items. source r \<in> set (or_list (sourceProviders r)))"
    by simp
  have rc: "\<forall>k items. (\<lambda>k. None :: ProviderRadioResult list option) k = Some items \<longrightarrow>
      (\<forall>r\<in>set items. r_source r \<in> set (or_list (r_sourceProviders r)))"
    by simp
  have n1: "fst (podcast_search default_settings default_configs byte_compare (\<lambda>k. None)
      two_answers news_request) \<noteq> []"
    by code_simp
  have n2: "fst (radio_search simple_parse_url default_radio_priority byte_compare (\<lambda>k. None)
      radio_answers jazz_request) \<noteq> []"
    by code_simp
  have h1: "source podcast_x \<in> set (or_list (sourceProviders podcast_x))"
    by code_simp
  have h2: "r_source station_a_stamped \<in> set (or_list (r_sourceProviders station_a_stamped))"
    by code_simp
  from search_source_in_sourceProviders [OF pc rc, of default_settings default_configs
      byte_compare two_answers news_request simple_parse_url default_radio_priority
      radio_answers jazz_request podcast_x podcast_y station_a_stamped station_b] n1 n2 h1 h2
  show ?thesis unfolding list_all_iff by blast
qed


text \<open>
  Claim C1 at a concrete request: with \<open>limit = 1\<close> and two providers that each return
  one podcast, the bounded limit is 1, the merged list has two items, and
  \<open>PodcastSearchManager.search\<close> returns both: the podcast search does not truncate,
  where \<open>RadioSearchManager.search\<close> applies \<open>sorted.slice(0, limit)\<close>.
\<close>

theorem podcast_search_exceeds_limit:
  "getBoundedLimit default_settings (dto_limit news_request) = 1 \<and>
   length (deduplicateResults (concat (map stamp two_answers))) = 2 \<and>
   length (fst (podcast_search default_settings default_configs byte_compare (\<lambda>k. None)
                  two_answers news_request)) = 2"
  by code_simp

text \<open>
  Claim C3 at two concrete inputs: \<open>deduplicateResults\<close> looks an item up under its
  three keys but stores every entry under one key only, and stores a merged entry under
  the incoming item's first key. Two listings with the same normalized title and author
  both survive when the second one brings a feed URL, and two listings with the same
  iTunes id both survive when the first one was stored under its feed URL.
\<close>

theorem deduplicateResults_keeps_duplicates:
  "map fallbackKey (deduplicateResults [news_plain, news_with_feed])
     = [Some ''daily news-ann'', Some ''daily news-ann''] \<and>
   map itunesKey (deduplicateResults [show_with_feed, show_without_feed])
     = [Some ''42'', Some ''42'']"
  by code_simp


subsection \<open>Cache keys\<close>

lemma sort_permuted: "mset ps = mset qs \<Longrightarrow> sort ps = sort (qs :: string list)"
  by (metis mset_sort properties_for_sort sorted_sort)

text \<open>
  Claim C7, as the code has it, for a limit and an offset that are safe integers. The
  podcast key is \<open>podcasts:multi:<query>:<language or any>:<limit>:<providers>\<close>,
  where \<open><providers>\<close> is the requested provider names sorted ascending and joined by
  commas, or \<open>all\<close> when none are requested; it does not depend on the order in which
  the providers were requested. The radio key of every request is
  \<open>radio-search:<query or all>:<country or any>:<language or any>:<tag or any>:<limit>:<offset>:<providers>\<close>:
  it carries the page offset between the limit and the provider part. The provider part
  is \<open>all\<close> when no provider filter is given; for a filter whose names are in ascending
  order it is the names joined by commas (\<open>all\<close> if that text is empty). What the
  provider part is for a filter given out of order is not part of the statement.
\<close>

theorem cache_key_formats:
  assumes "safe_integer lim" and "safe_integer rlim" and "safe_integer offset"
  shows
  "buildCacheKey query lang lim providers =
     join '':'' [''podcasts:multi'', query,
       (case lang of None \<Rightarrow> ''any'' | Some l \<Rightarrow> if l = [] then ''any'' else l),
       show_int lim,
       (case providers of None \<Rightarrow> ''all''
        | Some ps \<Rightarrow> if ps = [] then ''all'' else join '','' (sort ps))] \<and>
   (mset ps = mset qs \<longrightarrow>
      buildCacheKey query lang lim (Some ps) = buildCacheKey query lang lim (Some qs)) \<and>
   (\<exists>csv.
      radio_buildCacheKey rquery cntry rlang tg rlim offset rproviders =
        ''radio-search:'' @
        (case rquery of None \<Rightarrow> ''all'' | Some q \<Rightarrow> if q = [] then ''all'' else q) @ '':'' @
        (case cntry of None \<Rightarrow> ''any'' | Some c \<Rightarrow> if c = [] then ''any'' else c) @ '':'' @
        (case rlang of None \<Rightarrow> ''any'' | Some l \<Rightarrow> if l = [] then ''any'' else l) @ '':'' @
        (case tg of None \<Rightarrow> ''any'' | Some t \<Rightarrow> if t = [] then ''any'' else t) @ '':'' @
        show_int rlim @ '':'' @ show_int offset @ '':'' @ csv \<and>
      (rproviders = None \<longrightarrow> csv = ''all'') \<and>
      (\<forall>rps. rproviders = Some rps \<and> sorted rps \<longrightarrow>
         csv = (if join '','' (sort rps) = [] then ''all'' else join '','' (sort rps))))"
proof (intro conjI impI)
  show "buildCacheKey query lang lim providers =
     join '':'' [''podcasts:multi'', query,
       (case lang of None \<Rightarrow> ''any'' | Some l \<Rightarrow> if l = [] then ''any'' else l),
       show_int lim,
       (case providers of None \<Rightarrow> ''all''
        | Some ps \<Rightarrow> if ps = [] then ''all'' else join '','' (sort ps))]"
    by (simp add: buildCacheKey_def truthy_str_def split: option.splits)
next
  assume "mset ps = mset qs"
  then have "sort ps = sort qs" and "ps = [] \<longleftrightarrow> qs = []"
    by (auto dest: sort_permuted)
  then show "buildCacheKey query lang lim (Some ps) = buildCacheKey query lang lim (Some qs)"
    by (simp add: buildCacheKey_def)
next
  let ?csv = "str_or (map_option (join '','') rproviders) ''all''"
  have key: "radio_buildCacheKey rquery cntry rlang tg rlim offset rproviders =
        ''radio-search:'' @
        (case rquery of None \<Rightarrow> ''all'' | Some q \<Rightarrow> if q = [] then ''all'' else q) @ '':'' @
        (case cntry of None \<Rightarrow> ''any'' | Some c \<Rightarrow> if c = [] then ''any'' else c) @ '':'' @
        (case rlang of None \<Rightarrow> ''any'' | Some l \<Rightarrow> if l = [] then ''any'' else l) @ '':'' @
        (case tg of None \<Rightarrow> ''any'' | Some t \<Rightarrow> if t = [] then ''any'' else t) @ '':'' @
        show_int rlim @ '':'' @ show_int offset @ '':'' @ ?csv"
    by (simp add: radio_buildCacheKey_def str_or_def truthy_str_def split: option.splits)
  have missing: "rproviders = None \<longrightarrow> ?csv = ''all''"
    by (simp add: str_or_def truthy_str_def)
  have ascending: "\<forall>rps. rproviders = Some rps \<and> sorted rps \<longrightarrow>
      ?csv = (if join '','' (sort rps) = [] then ''all'' else join '','' (sort rps))"
    by (simp add: str_or_def truthy_str_def sorted_sort_id)
  from key missing ascending
  show "\<exists>csv.
      radio_buildCacheKey rquery cntry rlang tg rlim offset rproviders =
        ''radio-search:'' @
        (case rquery of None \<Rightarrow> ''all'' | Some q \<Rightarrow> if q = [] then ''all'' else q) @ '':'' @
        (case cntry of None \<Rightarrow> ''any'' | Some c \<Rightarrow> if c = [] then ''any'' else c) @ '':'' @
        (case rlang of None \<Rightarrow> ''any'' | Some l \<Rightarrow> if l = [] then ''any'' else l) @ '':'' @
        (case tg of None \<Rightarrow> ''any'' | Some t \<Rightarrow> if t = [] then ''any'' else t) @ '':'' @
        show_int rlim @ '':'' @ show_int offset @ '':'' @ csv \<and>
      (rproviders = None \<longrightarrow> csv = ''all'') \<and>
      (\<forall>rps. rproviders = Some rps \<and> sorted rps \<longrightarrow>
         csv = (if join '','' (sort rps) = [] then ''all'' else join '','' (sort rps)))"
    by blast
qed

theorem cache_key_formats_witness:
  "buildCacheKey ''jazz'' None 20 (Some [''taddy'', ''apple''])
     = ''podcasts:multi:jazz:any:20:apple,taddy'' \<and>
   buildCacheKey ''jazz'' None 20 (Some [''taddy'', ''apple''])
     = buildCacheKey ''jazz'' None 20 (Some [''apple'', ''taddy'']) \<and>
   radio_buildCacheKey (Some ''jazz'') None (Some ''en'') None 20 40
       (Some [''radionet'', ''shoutcast''])
     = ''radio-search:jazz:any:en:any:20:40:radionet,shoutcast''"
proof -
  have safe: "safe_integer 20" "safe_integer 40"
    by (simp_all add: safe_integer_def)
  have m: "mset [''taddy'', ''apple''] = mset [''apple'', ''taddy'']"
    by simp
  have s: "sorted [''radionet'', ''shoutcast'']"
    by code_simp
  have e1: "join '':'' [''podcasts:multi'', ''jazz'',
       (case None of None \<Rightarrow> ''any'' | Some l \<Rightarrow> if l = [] then ''any'' else l),
       show_int 20,
       (case Some [''taddy'', ''apple''] of None \<Rightarrow> ''all''
        | Some ps \<Rightarrow> if ps = [] then ''all'' else join '','' (sort ps))]
      = ''podcasts:multi:jazz:any:20:apple,taddy''"
    by code_simp
  have e2: "''radio-search:'' @
        (case Some ''jazz'' of None \<Rightarrow> ''all'' | Some q \<Rightarrow> if q = [] then ''all'' else q) @ '':'' @
        (case None of None \<Rightarrow> ''any'' | Some c \<Rightarrow> if c = [] then ''any'' else c) @ '':'' @
        (case Some ''en'' of None \<Rightarrow> ''any'' | Some l \<Rightarrow> if l = [] then ''any'' else l) @ '':'' @
        (case None of None \<Rightarrow> ''any'' | Some t \<Rightarrow> if t = [] then ''any'' else t) @ '':'' @
        show_int 20 @ '':'' @ show_int 40 @ '':'' @
        (if join '','' (sort [''radionet'', ''shoutcast'']) = [] then ''all''
         else join '','' (sort [''radionet'', ''shoutcast'']))
      = ''radio-search:jazz:any:en:any:20:40:radionet,shoutcast''"
    by code_simp
  note all = cache_key_formats [OF safe(1) safe(1) safe(2), of "''jazz''" None
      "Some [''taddy'', ''apple'']" "[''taddy'', ''apple'']" "[''apple'', ''taddy'']"
      "Some ''jazz''" None "Some ''en''" None "Some [''radionet'', ''shoutcast'']"]
  have podcast: "buildCacheKey ''jazz'' None 20 (Some [''taddy'', ''apple''])
      = ''podcasts:multi:jazz:any:20:apple,taddy''"
    using all [THEN conjunct1] e1 by (rule trans)
  have order: "buildCacheKey ''jazz'' None 20 (Some [''taddy'', ''apple''])
      = buildCacheKey ''jazz'' None 20 (Some [''apple'', ''taddy''])"
    using all [THEN conjunct2, THEN conjunct1] m by (rule mp)
  from all [THEN conjunct2, THEN conjunct2] obtain csv where
    key: "radio_buildCacheKey (Some ''jazz'') None (Some ''en'') None 20 40
        (Some [''radionet'', ''shoutcast'']) =
        ''radio-search:'' @
        (case Some ''jazz'' of None \<Rightarrow> ''all'' | Some q \<Rightarrow> if q = [] then ''all'' else q) @ '':'' @
        (case None of None \<Rightarrow> ''any'' | Some c \<Rightarrow> if c = [] then ''any'' else c) @ '':'' @
        (case Some ''en'' of None \<Rightarrow> ''any'' | Some l \<Rightarrow> if l = [] then ''any'' else l) @ '':'' @
        (case None of None \<Rightarrow> ''any'' | Some t \<Rightarrow> if t = [] then ''any'' else t) @ '':'' @
        show_int 20 @ '':'' @ show_int 40 @ '':'' @ csv"
    and asc: "\<forall>rps. Some [''radionet'', ''shoutcast''] = Some rps \<and> sorted rps \<longrightarrow>
        csv = (if join '','' (sort rps) = [] then ''all'' else join '','' (sort rps))"
    by blast
  from asc s have "csv = (if join '','' (sort [''radionet'', ''shoutcast'']) = [] then ''all''
      else join '','' (sort [''radionet'', ''shoutcast'']))"
    by blast
  with key e2 have radio: "radio_buildCacheKey (Some ''jazz'') None (Some ''en'') None 20 40
      (Some [''radionet'', ''shoutcast''])
      = ''radio-search:jazz:any:en:any:20:40:radionet,shoutcast''"
    by (simp only:)
  from podcast order radio show ?thesis by blast
qed

theorem radio_cache_key_has_offset:
  "radio_buildCacheKey (Some ''jazz'') None None None 20 0 None
     \<noteq> spec_cacheKey ''radio-search'' ''jazz'' [''any'', ''any'', ''any''] 20 None"
  by code_simp


subsection \<open>Rate limiter and Podcast Index adapter\<close>

text \<open>
  Claim C4 on a concrete run, quota 2 per 60 seconds: the window is anchored at time 0
  by the first request. The second request, 50 seconds later, stores the count with a
  fresh time to live of 60 seconds, so the entry now expires at 110 seconds. At 60
  seconds, where the window that started at 0 ends, the count is still 2 and the
  admission check refuses.
\<close>

theorem rate_window_postponed_by_requests:
  "after_first_request (buildKey taddy) = Some (1, 60000) \<and>
   after_second_request (buildKey taddy) = Some (2, 110000) \<and>
   usage_count after_second_request 60000 taddy = 2 \<and>
   fst (canMakeRequest after_second_request 60000 taddy (Some 2) (Some 60)) = False"
  by code_simp

theorem rate_window_postponed_by_requests_witness:
  "usage_count after_second_request 60000 taddy \<noteq> 0 \<and>
   \<not> fst (canMakeRequest after_second_request 60000 taddy (Some 2) (Some 60))"
  using rate_window_postponed_by_requests by simp

lemma index_search_issued:
  "fst (snd (index_search (Some cfg) toISO c t_admit t_record upstream params)) =
     (if enabled cfg \<and> sp_query params \<noteq> [] \<and> truthy_str (apiKey cfg) \<and>
         truthy_str (apiSecret cfg) \<and>
         fst (canMakeRequest c t_admit podcast_index (rateLimit cfg) (rateLimitPeriodSeconds cfg))
      then 1 else 0)"
  by (simp add: index_search_def Let_def split: response.splits)

lemma canMakeRequest_count:
  assumes "0 < period" "lim \<noteq> 0"
  shows "cache_get (snd (canMakeRequest c now p (Some lim) (Some period))) t (buildKey p) =
           (if t < now + period * 1000 then Some (usage_count c now p) else None)"
  using assms
  by (simp add: canMakeRequest_def getUsage_def getRemainingTtl_def cache_set_def cache_get_def
      usage_count_def truthy_num_def Let_def)

lemma recordRequest_count:
  assumes "0 < period" "lim \<noteq> 0"
  shows "usage_count (recordRequest c now p (Some lim) (Some period)) now p =
           usage_count c now p + 1"
  using assms
  by (simp add: recordRequest_def getTtl_def cache_set_def cache_get_def
      usage_count_def truthy_num_def or_zero_def Let_def)

lemma or_zero_Some: "or_zero (Some n) = n"
  by (simp add: or_zero_def truthy_num_def)

lemma usage_after_admit:
  assumes "0 < period" "lim \<noteq> 0" "now \<le> t" "t < now + period * 1000"
  shows "usage_count (snd (canMakeRequest c now p (Some lim) (Some period))) t p =
           usage_count c now p"
  using canMakeRequest_count [OF assms(1,2), of c now p t] assms(3,4)
  by (simp add: usage_count_def [of "snd _"] or_zero_Some)

text \<open>
  Claim C8, as the code has it. A search issues one upstream request exactly when the
  provider is enabled, the query is not empty, key and secret are present and the
  admission check passes; otherwise it issues none. With a quota and a period configured,
  the usage count grows by one exactly when the request was issued and answered
  (the response arriving within the period); a request that fails records nothing, and
  neither does a search that issues no request. Without a quota or period nothing is
  ever stored.
\<close>

theorem index_search_records_on_success:
  "index_search None toISO c t_admit t_record upstream params = ([], 0, c) \<and>
   fst (snd (index_search (Some cfg) toISO c t_admit t_record upstream params)) =
     (if enabled cfg \<and> sp_query params \<noteq> [] \<and> truthy_str (apiKey cfg) \<and>
         truthy_str (apiSecret cfg) \<and>
         fst (canMakeRequest c t_admit podcast_index (rateLimit cfg) (rateLimitPeriodSeconds cfg))
      then 1 else 0) \<and>
   (rateLimit cfg = Some lim \<and> lim \<noteq> 0 \<and> rateLimitPeriodSeconds cfg = Some period \<and>
    0 < period \<longrightarrow>
      (if fst (snd (index_search (Some cfg) toISO c t_admit t_record upstream params)) = 1 \<and>
          upstream \<noteq> Failed
       then t_admit \<le> t_record \<and> t_record < t_admit + period * 1000 \<longrightarrow>
            usage_count (snd (snd (index_search (Some cfg) toISO c t_admit t_record
                                     upstream params))) t_record podcast_index
              = usage_count c t_admit podcast_index + 1
       else usage_count (snd (snd (index_search (Some cfg) toISO c t_admit t_record
                                     upstream params))) t_admit podcast_index
              = usage_count c t_admit podcast_index)) \<and>
   (\<not> truthy_num (rateLimit cfg) \<or> \<not> truthy_num (rateLimitPeriodSeconds cfg) \<longrightarrow>
      snd (snd (index_search (Some cfg) toISO c t_admit t_record upstream params)) = c)"
proof (intro conjI impI)
  show "index_search None toISO c t_admit t_record upstream params = ([], 0, c)"
    by (simp add: index_search_def)
  show "fst (snd (index_search (Some cfg) toISO c t_admit t_record upstream params)) =
     (if enabled cfg \<and> sp_query params \<noteq> [] \<and> truthy_str (apiKey cfg) \<and>
         truthy_str (apiSecret cfg) \<and>
         fst (canMakeRequest c t_admit podcast_index (rateLimit cfg) (rateLimitPeriodSeconds cfg))
      then 1 else 0)"
    by (rule index_search_issued)
next
  assume q: "rateLimit cfg = Some lim \<and> lim \<noteq> 0 \<and> rateLimitPeriodSeconds cfg = Some period \<and>
    0 < period"
  let ?out = "index_search (Some cfg) toISO c t_admit t_record upstream params"
  let ?admit = "canMakeRequest c t_admit podcast_index (Some lim) (Some period)"
  have at_admit: "usage_count (snd ?admit) t_admit podcast_index = usage_count c t_admit podcast_index"
    using q by (intro usage_after_admit) simp_all
  show "if fst (snd ?out) = 1 \<and> upstream \<noteq> Failed
       then t_admit \<le> t_record \<and> t_record < t_admit + period * 1000 \<longrightarrow>
            usage_count (snd (snd ?out)) t_record podcast_index
              = usage_count c t_admit podcast_index + 1
       else usage_count (snd (snd ?out)) t_admit podcast_index
              = usage_count c t_admit podcast_index"
  proof (cases "fst (snd ?out) = 1 \<and> upstream \<noteq> Failed")
    case True
    then obtain feeds where up: "upstream = Responded feeds"
      by (cases upstream) auto
    from True have store: "snd (snd ?out) =
        recordRequest (snd ?admit) t_record podcast_index (Some lim) (Some period)"
      using q up by (auto simp: index_search_def Let_def split: if_splits)
    have "usage_count (snd (snd ?out)) t_record podcast_index
            = usage_count c t_admit podcast_index + 1"
      if "t_admit \<le> t_record" "t_record < t_admit + period * 1000"
      using q that usage_after_admit [of period lim t_admit t_record c podcast_index]
      by (simp add: store recordRequest_count)
    with True show ?thesis by simp
  next
    case False
    then have "snd (snd ?out) = c \<or> snd (snd ?out) = snd ?admit"
      using q by (auto simp: index_search_def Let_def split: if_splits response.splits)
    with False at_admit show ?thesis by auto
  qed
next
  assume "\<not> truthy_num (rateLimit cfg) \<or> \<not> truthy_num (rateLimitPeriodSeconds cfg)"
  then show "snd (snd (index_search (Some cfg) toISO c t_admit t_record upstream params)) = c"
    by (auto simp: index_search_def canMakeRequest_def recordRequest_def Let_def
        split: response.splits)
qed

theorem index_search_records_on_success_witness:
  "fst (snd (index_search (Some index_config) fixed_iso (\<lambda>k. None) 0 300
               (Responded (Some [one_feed])) news_params)) = 1 \<and>
   usage_count (snd (snd (index_search (Some index_config) fixed_iso (\<lambda>k. None) 0 300
               (Responded (Some [one_feed])) news_params))) 300 podcast_index = 1"
proof -
  have cfg: "rateLimit index_config = Some 500 \<and> (500::int) \<noteq> 0 \<and>
      rateLimitPeriodSeconds index_config = Some 2592000 \<and> (0::int) < 2592000"
    by (simp add: index_config_def provider_config_def)
  have issued: "fst (snd (index_search (Some index_config) fixed_iso (\<lambda>k. None) 0 300
      (Responded (Some [one_feed])) news_params)) = 1"
    by (simp add: index_search_issued index_config_def provider_config_def news_params_def
        truthy_str_def truthy_num_def canMakeRequest_def getUsage_def getRemainingTtl_def
        cache_get_def or_zero_def Let_def)
  have before: "usage_count (\<lambda>k. None) 0 podcast_index = 0"
    by (simp add: usage_count_def cache_get_def or_zero_def truthy_num_def)
  from index_search_records_on_success [of fixed_iso "\<lambda>k. None" 0 300
      "Responded (Some [one_feed])" news_params index_config 500 2592000] cfg issued before
  show ?thesis by simp
qed

theorem index_search_failure_not_recorded:
  "fst (snd (index_search (Some index_config) fixed_iso (\<lambda>k. None) 0 300 Failed news_params)) = 1 \<and>
   usage_count (snd (snd (index_search (Some index_config) fixed_iso (\<lambda>k. None) 0 300 Failed
                            news_params))) 300 podcast_index
     = usage_count (\<lambda>k. None) 0 podcast_index"
  by code_simp


subsection \<open>Feed parser\<close>

text \<open>
  Claim C10 on a concrete feed: the item without an enclosure is skipped and the three
  items with an enclosure each give an episode. The duration \<open>3600\<close> is read as 3600
  seconds and the unparseable one as \<open>null\<close>, but \<open>01:02:03\<close> is read as 1, the digits
  before the first colon, where the stated duration is 3723 seconds.
\<close>

theorem feed_duration_reads_leading_integer:
  "feed_durations (fetchAndParseRssFeed no_date (Responded (Some sample_channel)) ''https://f'')
     = Some [Some 1, None, Some 3600] \<and>
   spec_parse_duration ''01:02:03'' = Some 3723 \<and>
   spec_parse_duration ''3600'' = Some 3600 \<and>
   spec_parse_duration ''about an hour'' = None"
  by code_simp

theorem feed_duration_reads_leading_integer_witness:
  "feed_durations (fetchAndParseRssFeed no_date (Responded (Some sample_channel)) ''https://f'')
     \<noteq> Some [spec_parse_duration ''01:02:03'', spec_parse_duration ''about an hour'',
              spec_parse_duration ''3600'']"
  using feed_duration_reads_leading_integer by simp


section \<open>Further properties of the code\<close>

text \<open>
  The station search truncates: on a cache miss with at least one enabled provider the
  returned list has length \<open>min(limit, |merged|)\<close>, where \<open>limit\<close> is the requested
  limit clamped into 1..100, and this list is what the cache then holds under the key.
\<close>

theorem radio_search_truncates:
  assumes miss: "rcache (radio_buildCacheKey (map_option trim (dto_query dto))
        (map_option trim (dto_country dto)) (map_option trim (dto_language dto))
        (map_option trim (dto_tag dto)) (radio_getBoundedLimit (dto_limit dto))
        (if truthy_num (dto_page dto)
         then (the (dto_page dto) - 1) * radio_getBoundedLimit (dto_limit dto) else 0)
        (dto_providers dto)) = None"
    and some: "providers \<noteq> []"
  shows "1 \<le> radio_getBoundedLimit (dto_limit dto) \<and>
         radio_getBoundedLimit (dto_limit dto) \<le> 100 \<and>
         length (fst (radio_search pu rp lc rcache providers dto)) =
           min (nat (radio_getBoundedLimit (dto_limit dto)))
               (length (radio_deduplicateResults pu (concat (map radio_stamp providers))))"
proof -
  have "fst (radio_search pu rp lc rcache providers dto) =
      take (nat (radio_getBoundedLimit (dto_limit dto)))
        (radio_sortResultsByPriority rp lc
          (radio_deduplicateResults pu (concat (map radio_stamp providers))))"
    using miss some by (simp add: radio_search_def Let_def)
  then have "length (fst (radio_search pu rp lc rcache providers dto)) =
      min (nat (radio_getBoundedLimit (dto_limit dto)))
          (length (radio_deduplicateResults pu (concat (map radio_stamp providers))))"
    by (simp add: radio_sortResultsByPriority_def length_array_sort min.commute)
  moreover have "1 \<le> radio_getBoundedLimit (dto_limit dto) \<and>
      radio_getBoundedLimit (dto_limit dto) \<le> 100"
    by (simp add: radio_getBoundedLimit_def)
  ultimately show ?thesis by simp
qed

theorem radio_search_truncates_witness:
  "length (fst (radio_search simple_parse_url default_radio_priority byte_compare (\<lambda>k. None)
                  radio_answers jazz_request)) = 1"
proof -
  have n: "min (nat (radio_getBoundedLimit (dto_limit jazz_request)))
      (length (radio_deduplicateResults simple_parse_url (concat (map radio_stamp radio_answers))))
      = 1"
    by code_simp
  from radio_search_truncates [of "\<lambda>k. None" jazz_request radio_answers simple_parse_url
      default_radio_priority byte_compare] n
  show ?thesis by (simp add: radio_answers_def)
qed

text \<open>
  The admission check never changes the usage count: with a quota and a positive period
  the count read at the time of the check is the same before and after it, and the
  answer is whether that count is below the quota; without a quota or period the check
  answers yes and leaves the store alone.
\<close>

theorem canMakeRequest_keeps_count:
  "(0 < period \<and> lim \<noteq> 0 \<longrightarrow>
      usage_count (snd (canMakeRequest c now p (Some lim) (Some period))) now p
        = usage_count c now p \<and>
      fst (canMakeRequest c now p (Some lim) (Some period)) = (usage_count c now p < lim)) \<and>
   (\<not> truthy_num l \<or> \<not> truthy_num q \<longrightarrow> canMakeRequest c now p l q = (True, c))"
  by (auto simp: canMakeRequest_def getUsage_def getRemainingTtl_def cache_set_def cache_get_def
      usage_count_def truthy_num_def or_zero_def Let_def)

theorem canMakeRequest_keeps_count_witness:
  "usage_count (snd (canMakeRequest after_first_request 50000 taddy (Some 2) (Some 60)))
     50000 taddy = 1 \<and>
   fst (canMakeRequest after_first_request 50000 taddy (Some 2) (Some 60))"
proof -
  have u: "usage_count after_first_request 50000 taddy = 1"
    by code_simp
  from canMakeRequest_keeps_count [of 60 2 after_first_request 50000 taddy None None] u
  show ?thesis by simp
qed

lemma digit_not_space_or_sign:
  "is_digit c \<Longrightarrow> \<not> is_space c \<and> c \<noteq> CHR ''-'' \<and> c \<noteq> CHR ''+''"
  by (auto simp: is_digit_def is_space_def)

lemma parseInt10_digits:
  assumes "all_digits s"
  shows "parseInt10 s = Some (int (digits_value s))"
proof -
  from assms obtain c cs where s: "s = c # cs" and c: "is_digit c" and all: "list_all is_digit s"
    by (cases s) (auto simp: all_digits_def)
  have drop: "dropWhile is_space s = s"
    using s c digit_not_space_or_sign by simp
  have take: "takeWhile is_digit s = s"
    using all by (simp add: list_all_iff)
  have sign: "hd s \<noteq> CHR ''-'' \<and> hd s \<noteq> CHR ''+'' \<and> s \<noteq> []"
    using s c digit_not_space_or_sign [of c] by simp
  have rest: "(if s \<noteq> [] \<and> (hd s = CHR ''-'' \<or> hd s = CHR ''+'') then tl s else s) = s"
    using sign by simp
  show ?thesis
    unfolding parseInt10_def Let_def drop rest take using sign by simp
qed

lemma map_filter_Some:
  "List.map_filter f (map Some xs) = List.map_filter (\<lambda>x. f (Some x)) xs"
  by (induction xs) (simp_all add: List.map_filter_simps split: option.splits)

text \<open>
  What the feed parser does for every feed: the episodes are the items that have an
  enclosure, in the order of the feed, one episode for each, whatever the duration element
  holds; the duration of an episode is \<open>null\<close> when the duration text does not start
  with a number, and is the number itself when the text is a non-zero safe integer in
  decimal digits.
\<close>

theorem parse_episodes_durations:
  "map ep_duration (parse_episodes parseDate podcast (ItemArray items)) =
     map (\<lambda>i. episode_duration (item_itunes_duration i))
         (filter (\<lambda>i. item_enclosure i \<noteq> None) items) \<and>
   parse_episodes parseDate podcast NoItem = [] \<and>
   (parseInt10 s = None \<longrightarrow> episode_duration (Some s) = None) \<and>
   (all_digits s \<and> digits_value s \<noteq> 0 \<and> safe_integer (int (digits_value s)) \<longrightarrow>
      episode_duration (Some s) = Some (int (digits_value s)))"
proof (intro conjI impI)
  show "map ep_duration (parse_episodes parseDate podcast (ItemArray items)) =
     map (\<lambda>i. episode_duration (item_itunes_duration i))
         (filter (\<lambda>i. item_enclosure i \<noteq> None) items)"
    unfolding parse_episodes_def channel_item_list_def
    by (induction items)
       (auto simp: map_filter_Some List.map_filter_simps episode_of_def split: option.splits)
  show "parse_episodes parseDate podcast NoItem = []"
    by (simp add: parse_episodes_def channel_item_list_def List.map_filter_simps)
  show "episode_duration (Some s) = None" if "parseInt10 s = None"
    using that by (simp add: episode_duration_def)
  show "episode_duration (Some s) = Some (int (digits_value s))"
    if "all_digits s \<and> digits_value s \<noteq> 0 \<and> safe_integer (int (digits_value s))"
    using that parseInt10_digits [of s] by (simp add: episode_duration_def)
qed

theorem parse_episodes_durations_witness:
  "map ep_duration (parse_episodes no_date (parsed_podcast sample_channel ''https://f'')
       (ItemArray [text_only_item, hms_item, odd_item, seconds_item]))
     = [Some 1, None, Some 3600] \<and>
   episode_duration (Some ''about an hour'') = None \<and>
   episode_duration (Some ''3600'') = Some 3600"
proof -
  have a: "map (\<lambda>i. episode_duration (item_itunes_duration i))
      (filter (\<lambda>i. item_enclosure i \<noteq> None) [text_only_item, hms_item, odd_item, seconds_item])
      = [Some 1, None, Some 3600]"
    by code_simp
  have b: "parseInt10 ''about an hour'' = None"
    by code_simp
  have c: "all_digits ''3600'' \<and> digits_value ''3600'' \<noteq> 0 \<and>
      safe_integer (int (digits_value ''3600''))"
    by code_simp
  have d: "int (digits_value ''3600'') = 3600"
    by code_simp
  have t1: "map ep_duration (parse_episodes no_date (parsed_podcast sample_channel ''https://f'')
       (ItemArray [text_only_item, hms_item, odd_item, seconds_item]))
     = [Some 1, None, Some 3600]"
    using parse_episodes_durations [of no_date "parsed_podcast sample_channel ''https://f''"
        "[text_only_item, hms_item, odd_item, seconds_item]" "''about an hour''"] a
    by simp
  have t2: "episode_duration (Some ''about an hour'') = None"
    using parse_episodes_durations [of no_date "parsed_podcast sample_channel ''https://f''"
        "[]" "''about an hour''"] b
    by blast
  have "episode_duration (Some ''3600'') = Some (int (digits_value ''3600''))"
    using parse_episodes_durations [of no_date "parsed_podcast sample_channel ''https://f''"
        "[]" "''3600''"] c
    by blast
  with d have t3: "episode_duration (Some ''3600'') = Some 3600"
    by (simp only:)
  from t1 t2 t3 show ?thesis by blast
qed

end
